theory Spec2Isabelle
  imports Main "HOL-Library.AList" "HOL-Library.Sublist"
begin

section \<open>Static option tables (index.ts)\<close>

text \<open>
  \<^verbatim>\<open>interface Choice { name: string; value: string }\<close>.  The field \<open>value\<close> is called
  \<open>choice_value\<close> here, \<open>name\<close> is \<open>choice_name\<close>.
\<close>

record Choice =
  choice_name :: string
  choice_value :: string

definition AI_OPTIONS :: "Choice list" where
  "AI_OPTIONS =
    [\<lparr>choice_name = ''Cursor'', choice_value = ''cursor''\<rparr>,
     \<lparr>choice_name = ''Claude'', choice_value = ''claude''\<rparr>,
     \<lparr>choice_name = ''Gemini'', choice_value = ''gemini''\<rparr>]"

definition CATEGORY_OPTIONS :: "Choice list" where
  "CATEGORY_OPTIONS =
    [\<lparr>choice_name = ''Backend'', choice_value = ''backend''\<rparr>,
     \<lparr>choice_name = ''Frontend'', choice_value = ''frontend''\<rparr>,
     \<lparr>choice_name = ''Infrastructure'', choice_value = ''infra''\<rparr>]"

text \<open>
  \<open>FRAMEWORK_OPTIONS\<close> is an object literal; its own properties are kept in source order as
  an association list from the key to the array of choices.
\<close>

definition FRAMEWORK_OPTIONS :: "(string \<times> Choice list) list" where
  "FRAMEWORK_OPTIONS =
    [(''backend'',
       [\<lparr>choice_name = ''Fastify'', choice_value = ''fastify''\<rparr>,
        \<lparr>choice_name = ''NestJS'', choice_value = ''nestjs''\<rparr>,
        \<lparr>choice_name = ''Koa'', choice_value = ''koa''\<rparr>,
        \<lparr>choice_name = ''Express'', choice_value = ''express''\<rparr>,
        \<lparr>choice_name = ''Hapi'', choice_value = ''hapi''\<rparr>]),
     (''frontend'',
       [\<lparr>choice_name = ''React'', choice_value = ''react''\<rparr>,
        \<lparr>choice_name = ''Vue'', choice_value = ''vue''\<rparr>,
        \<lparr>choice_name = ''Angular'', choice_value = ''angular''\<rparr>,
        \<lparr>choice_name = ''Svelte'', choice_value = ''svelte''\<rparr>,
        \<lparr>choice_name = ''Next.js'', choice_value = ''nextjs''\<rparr>]),
     (''infra'',
       [\<lparr>choice_name = ''Docker'', choice_value = ''docker''\<rparr>,
        \<lparr>choice_name = ''Kubernetes'', choice_value = ''kubernetes''\<rparr>,
        \<lparr>choice_name = ''Terraform'', choice_value = ''terraform''\<rparr>,
        \<lparr>choice_name = ''AWS CDK'', choice_value = ''aws-cdk''\<rparr>,
        \<lparr>choice_name = ''Pulumi'', choice_value = ''pulumi''\<rparr>])]"

text \<open>
  The value of the JavaScript expression \<open>FRAMEWORK_OPTIONS[category]\<close>.  The table is a
  plain object, so a property read that finds no own key goes on to \<open>Object.prototype\<close>:
  its members (all functions or objects) are what the read returns for their names, and
  \<open>undefined\<close> is returned only when the prototype has no such member either.
\<close>

datatype js_value =
    Undefined
  | ChoiceArray "Choice list"
  | PrototypeMember string

definition object_prototype_members :: "string list" where
  "object_prototype_members =
    [''constructor'', ''__defineGetter__'', ''__defineSetter__'', ''hasOwnProperty'',
     ''__lookupGetter__'', ''__lookupSetter__'', ''isPrototypeOf'', ''propertyIsEnumerable'',
     ''toString'', ''valueOf'', ''__proto__'', ''toLocaleString'']"

definition property_read :: "(string \<times> Choice list) list \<Rightarrow> string \<Rightarrow> js_value" where
  "property_read obj key =
    (case map_of obj key of
       Some cs \<Rightarrow> ChoiceArray cs
     | None \<Rightarrow> if key \<in> set object_prototype_members then PrototypeMember key else Undefined)"

text \<open>JavaScript truthiness: \<open>undefined\<close> is falsy; arrays (also empty), functions and objects are truthy.\<close>

fun truthy :: "js_value \<Rightarrow> bool" where
  "truthy Undefined = False"
| "truthy (ChoiceArray cs) = True"
| "truthy (PrototypeMember k) = True"


section \<open>Paths (POSIX \<open>path.join\<close>)\<close>

text \<open>
  An absolute, normalised path is the list of its segments below the root.
  \<open>path.join\<close> joins its arguments with \<open>/\<close> and normalises the result: empty
  segments and \<open>.\<close> are dropped, \<open>..\<close> removes the segment before it (and stays at the root).
\<close>

type_synonym path = "string list"

fun segments :: "string \<Rightarrow> string \<Rightarrow> string list" where
  "segments cur [] = [cur]"
| "segments cur (c # cs) =
    (if c = CHR ''/'' then cur # segments [] cs else segments (cur @ [c]) cs)"

definition push_segment :: "path \<Rightarrow> string \<Rightarrow> path" where
  "push_segment p s =
    (if s = [] \<or> s = ''.'' then p
     else if s = ''..'' then butlast p
     else p @ [s])"

definition path_join :: "path \<Rightarrow> string list \<Rightarrow> path" where
  "path_join base parts = foldl push_segment base (concat (map (segments []) parts))"

text \<open>How a path prints: \<open>/a/b\<close>, and \<open>/\<close> for the root.\<close>

definition path_string :: "path \<Rightarrow> string" where
  "path_string p = (if p = [] then ''/'' else concat (map (\<lambda>s. ''/'' @ s) p))"

text \<open>
  The string \<open>path.join\<close> returns.  Normalisation keeps one trailing slash when the joined
  arguments end with one, that is when the last non-empty argument does, except at the
  root; \<open>joined_string p parts\<close> is the string for arguments \<open>parts\<close> joined to the path \<open>p\<close>.
\<close>

definition trailing_slash :: "string list \<Rightarrow> bool" where
  "trailing_slash parts =
    (case filter (\<lambda>s. s \<noteq> []) parts of
       [] \<Rightarrow> False
     | s # ss \<Rightarrow> last (last (s # ss)) = CHR ''/'')"

definition joined_string :: "path \<Rightarrow> string list \<Rightarrow> string" where
  "joined_string p parts =
    (if p = [] then ''/''
     else path_string p @ (if trailing_slash parts then ''/'' else ''''))"


section \<open>The file system and the fs-extra operations the generator calls\<close>

text \<open>
  A file system is a tree: a regular file with its bytes, or a directory with its entries
  (name and node) in listing order.
\<close>

datatype node =
    File string
  | Dir "(string \<times> node) list"

fun is_dir :: "node \<Rightarrow> bool" where
  "is_dir (Dir es) = True"
| "is_dir (File c) = False"

text \<open>Every directory lists each name once.\<close>

fun wf_node :: "node \<Rightarrow> bool" where
  "wf_node (File c) = True"
| "wf_node (Dir es) = (distinct (map fst es) \<and> list_all (\<lambda>e. wf_node (snd e)) es)"

fun lookup :: "node \<Rightarrow> path \<Rightarrow> node option" where
  "lookup n [] = Some n"
| "lookup (File c) (x # xs) = None"
| "lookup (Dir es) (x # xs) = (case map_of es x of None \<Rightarrow> None | Some n \<Rightarrow> lookup n xs)"

text \<open>What \<open>fs.stat\<close> and \<open>fs.readFile\<close> tell about a path: a file and its bytes, or a directory.\<close>

datatype entry = IsFile string | IsDirectory

fun entry_of :: "node \<Rightarrow> entry" where
  "entry_of (File c) = IsFile c"
| "entry_of (Dir es) = IsDirectory"

definition stat :: "node \<Rightarrow> path \<Rightarrow> entry option" where
  "stat fs p = map_option entry_of (lookup fs p)"

text \<open>
  Modelled from the spec: the package fs-extra is a dependency of the repository and not
  part of its sources.  The definitions below follow what the specification says of the
  copy (merge into the destination, a copied file overwrites, directories are united) and
  of the migration, and for the failures, on which the specification is silent, the
  checks and messages of the library.  Every operation reads the tree once and returns
  the tree it leaves.  \<open>pathExists\<close> is true for a file and for a directory.
\<close>

definition pathExists :: "node \<Rightarrow> path \<Rightarrow> bool" where
  "pathExists fs p = (lookup fs p \<noteq> None)"

text \<open>Replace (or create) the node at a path whose parent is a directory; other paths stay.\<close>

fun put_at :: "path \<Rightarrow> node \<Rightarrow> node \<Rightarrow> node" where
  "put_at [] n fs = n"
| "put_at (x # xs) n (File c) = File c"
| "put_at [x] n (Dir es) = Dir (AList.update x n es)"
| "put_at (x # y # ys) n (Dir es) =
    (case map_of es x of
       None \<Rightarrow> Dir es
     | Some m \<Rightarrow> Dir (AList.update x (put_at (y # ys) n m) es))"

text \<open>\<open>remove\<close>: delete a file or a whole directory; no error when nothing is there.\<close>

fun remove :: "path \<Rightarrow> node \<Rightarrow> node" where
  "remove [] fs = fs"
| "remove (x # xs) (File c) = File c"
| "remove [x] (Dir es) = Dir (AList.delete x es)"
| "remove (x # y # ys) (Dir es) =
    (case map_of es x of
       None \<Rightarrow> Dir es
     | Some m \<Rightarrow> Dir (AList.update x (remove (y # ys) m) es))"

text \<open>
  What the program can throw and catch: an \<open>Error\<close> object with its message, or some
  other value (\<open>instanceof Error\<close> is false).  \<open>has_isTtyError\<close> is the value of the test
  \<open>error && typeof error === 'object' && 'isTtyError' in error\<close> of \<open>runCLI\<close>.
\<close>

datatype thrown =
    Error (has_isTtyError: bool) (error_message: string)
  | NonError (has_isTtyError: bool)

text \<open>A path between single quotes, as the error messages show it.\<close>

definition quoted :: "path \<Rightarrow> string" where
  "quoted p = [CHR 0x27] @ path_string p @ [CHR 0x27]"

text \<open>
  Modelled from the spec: \<open>ensureDir\<close> (mkdir -p) creates every missing directory of the
  path and is a no-op on an existing directory ("created if absent").  As in the library
  it fails when a component of the path exists and is not a directory (\<open>EEXIST\<close> for the
  path itself, \<open>ENOTDIR\<close> for a component above it), and then nothing has changed.
\<close>

fun mkdirs :: "path \<Rightarrow> node \<Rightarrow> node option" where
  "mkdirs p (File c) = None"
| "mkdirs [] (Dir es) = Some (Dir es)"
| "mkdirs (x # xs) (Dir es) =
    (case mkdirs xs (case map_of es x of None \<Rightarrow> Dir [] | Some n \<Rightarrow> n) of
       None \<Rightarrow> None
     | Some n' \<Rightarrow> Some (Dir (AList.update x n' es)))"

definition ensureDir :: "node \<Rightarrow> path \<Rightarrow> thrown option \<times> node" where
  "ensureDir fs p =
    (case mkdirs p fs of
       Some fs' \<Rightarrow> (None, fs')
     | None \<Rightarrow>
        (Some (Error False
           ((if pathExists fs p then ''EEXIST: file already exists'' else ''ENOTDIR: not a directory'')
             @ '', mkdir '' @ quoted p)),
         fs))"

text \<open>
  Modelled from the spec: the checks fs-extra makes before a copy or a move, which the
  specification does not mention.  The destination must not be the source, a directory
  never replaces a non-directory nor a non-directory a directory, and a directory is not
  copied or moved below itself.
\<close>

definition subdirError :: "node \<Rightarrow> path \<Rightarrow> path \<Rightarrow> string \<Rightarrow> thrown option" where
  "subdirError s src dst funcName =
    (if is_dir s \<and> prefix src dst then
       Some (Error False (''Cannot '' @ funcName @ '' '' @ quoted src
                          @ '' to a subdirectory of itself, '' @ quoted dst @ ''.''))
     else None)"

definition checkPaths :: "node \<Rightarrow> node option \<Rightarrow> path \<Rightarrow> path \<Rightarrow> string \<Rightarrow> thrown option" where
  "checkPaths s d src dst funcName =
    (case d of
       None \<Rightarrow> subdirError s src dst funcName
     | Some dn \<Rightarrow>
        if src = dst then
          Some (Error False ''Source and destination must not be the same.'')
        else if is_dir s \<and> \<not> is_dir dn then
          Some (Error False (''Cannot overwrite non-directory '' @ quoted dst
                             @ '' with directory '' @ quoted src @ ''.''))
        else if \<not> is_dir s \<and> is_dir dn then
          Some (Error False (''Cannot overwrite directory '' @ quoted dst
                             @ '' with non-directory '' @ quoted src @ ''.''))
        else subdirError s src dst funcName)"

text \<open>
  Modelled from the spec: the recursive copy.  A file is written over a file or to a free
  name; a directory is created when missing and its entries are copied into it one by one;
  existing entries of the destination that the source does not have stay.  An entry whose
  kind differs from the destination's is not copied and raises an error, the other entries
  are copied all the same (nothing is rolled back).  The first component of the result
  lists the relative paths that raised, the second is the destination afterwards.
\<close>

datatype conflict = NonDirOverDir path | DirOverNonDir path

fun copy_node :: "path \<Rightarrow> node \<Rightarrow> node option \<Rightarrow> conflict list \<times> node"
  and copy_entries ::
    "path \<Rightarrow> (string \<times> node) list \<Rightarrow> (string \<times> node) list \<Rightarrow> conflict list \<times> (string \<times> node) list"
where
  "copy_node rp (File c) None = ([], File c)"
| "copy_node rp (File c) (Some (File c')) = ([], File c)"
| "copy_node rp (File c) (Some (Dir ds)) = ([NonDirOverDir rp], Dir ds)"
| "copy_node rp (Dir ss) None =
    (case copy_entries rp ss [] of (cs, ds') \<Rightarrow> (cs, Dir ds'))"
| "copy_node rp (Dir ss) (Some (File c')) = ([DirOverNonDir rp], File c')"
| "copy_node rp (Dir ss) (Some (Dir ds)) =
    (case copy_entries rp ss ds of (cs, ds') \<Rightarrow> (cs, Dir ds'))"
| "copy_entries rp [] ds = ([], ds)"
| "copy_entries rp ((k, s) # ss) ds =
    (case copy_node (rp @ [k]) s (map_of ds k) of
       (c1, n) \<Rightarrow>
         (case copy_entries rp ss (AList.update k n ds) of
            (c2, ds') \<Rightarrow> (c1 @ c2, ds')))"

fun conflict_error :: "path \<Rightarrow> path \<Rightarrow> conflict \<Rightarrow> thrown" where
  "conflict_error src dst (NonDirOverDir rp) =
     Error False (''Cannot overwrite directory '' @ quoted (dst @ rp)
                  @ '' with non-directory '' @ quoted (src @ rp) @ ''.'')"
| "conflict_error src dst (DirOverNonDir rp) =
     Error False (''Cannot overwrite non-directory '' @ quoted (dst @ rp)
                  @ '' with directory '' @ quoted (src @ rp) @ ''.'')"

definition copy :: "node \<Rightarrow> path \<Rightarrow> path \<Rightarrow> thrown option \<times> node" where
  "copy fs src dst =
    (case lookup fs src of
       None \<Rightarrow>
         (Some (Error False (''ENOENT: no such file or directory, lstat '' @ quoted src)), fs)
     | Some s \<Rightarrow>
        (case checkPaths s (lookup fs dst) src dst ''copy'' of
           Some e \<Rightarrow> (Some e, fs)
         | None \<Rightarrow>
            (case mkdirs (butlast dst) fs of
               None \<Rightarrow>
                 (Some (Error False (''ENOTDIR: not a directory, mkdir '' @ quoted (butlast dst))), fs)
             | Some fs1 \<Rightarrow>
                (case copy_node [] s (lookup fs1 dst) of
                   (cs, n) \<Rightarrow>
                     (map_option (conflict_error src dst) (case cs of [] \<Rightarrow> None | c # _ \<Rightarrow> Some c),
                      put_at dst n fs1)))))"

text \<open>
  Modelled from the spec: \<open>move\<close> with \<open>overwrite: true\<close> makes the same checks, creates
  the parent of the destination, removes what is at the destination and renames the source.
\<close>

definition rename :: "node \<Rightarrow> path \<Rightarrow> path \<Rightarrow> thrown option \<times> node" where
  "rename fs src dst =
    (case lookup fs src of
       None \<Rightarrow>
         (Some (Error False (''ENOENT: no such file or directory, rename '' @ quoted src
                             @ '' -> '' @ quoted dst)), fs)
     | Some s \<Rightarrow> (None, put_at dst s (remove src fs)))"

definition move :: "node \<Rightarrow> path \<Rightarrow> path \<Rightarrow> thrown option \<times> node" where
  "move fs src dst =
    (case lookup fs src of
       None \<Rightarrow>
         (Some (Error False (''ENOENT: no such file or directory, lstat '' @ quoted src)), fs)
     | Some s \<Rightarrow>
        (case checkPaths s (lookup fs dst) src dst ''move'' of
           Some e \<Rightarrow> (Some e, fs)
         | None \<Rightarrow>
            (case mkdirs (butlast dst) fs of
               None \<Rightarrow>
                 (Some (Error False (''ENOTDIR: not a directory, mkdir '' @ quoted (butlast dst))), fs)
             | Some fs1 \<Rightarrow> rename (remove dst fs1) src dst)))"


section \<open>The program (index.ts, cli.ts)\<close>

text \<open>
  A line of \<open>console.log\<close> with the chalk colour it was given.  The glyphs of the
  messages are their UTF-8 bytes.
\<close>

datatype colour = Red | Green | Gray | Yellow | Blue

type_synonym line = "colour \<times> string"


definition cross_mark :: string where
  "cross_mark = [CHR 0xE2, CHR 0x9D, CHR 0x8C]"

definition check_mark :: string where
  "check_mark = [CHR 0xE2, CHR 0x9C, CHR 0x85]"

definition folder :: string where
  "folder = [CHR 0xF0, CHR 0x9F, CHR 0x93, CHR 0x81]"


text \<open>
  A question handed to \<open>inquirer.prompt\<close>, and the state the program acts on: the file
  system, what was printed, and the questions the prompt layer has taken up so far.
\<close>

record question =
  qtype :: string
  qname :: string
  qmessage :: string
  choices :: js_value

record world =
  files :: node
  stdout :: "line list"
  stderr :: "string list"
  asked :: "question list"

text \<open>
  How a call of an \<open>async\<close> function ends: its promise resolves, it rejects with what was
  thrown, or it never settles, because a promise the function awaits never does.
\<close>

datatype 'a outcome = Returned 'a | Threw thrown | Unsettled

definition console_log :: "line \<Rightarrow> world \<Rightarrow> world" where
  "console_log l w = w\<lparr>stdout := stdout w @ [l]\<rparr>"

text \<open>
  Modelled from the spec: the package inquirer is a dependency of the repository and not
  part of its sources, so the prompt layer, together with the user and the terminal, is a
  parameter of the program.  A list prompt with an array of choices is taken up and ends
  in one of three ways: the promise resolves with the value of the choice picked, it
  rejects with an error (among them the unsupported-environment error, which carries
  \<open>isTtyError\<close>), or it never settles, because no input comes or because the library
  ends the process itself (it sends the process an interrupt signal when its input
  closes).  Choices that are not an array are not taken up: nothing is shown, the library
  fails on them with an error of its own, \<open>choices_error\<close>, and the promise rejects.
\<close>

datatype prompt_result = Answer string | Reject thrown | NoAnswer

record prompter =
  reply :: "question \<Rightarrow> prompt_result"
  choices_error :: "js_value \<Rightarrow> thrown"

fun is_array :: "js_value \<Rightarrow> bool" where
  "is_array (ChoiceArray cs) = True"
| "is_array Undefined = False"
| "is_array (PrototypeMember k) = False"

definition inquirer_prompt :: "prompter \<Rightarrow> question \<Rightarrow> world \<Rightarrow> string outcome \<times> world" where
  "inquirer_prompt user q w =
    (if is_array (choices q) then
       (case reply user q of
          Answer a \<Rightarrow> (Returned a, w\<lparr>asked := asked w @ [q]\<rparr>)
        | Reject e \<Rightarrow> (Threw e, w\<lparr>asked := asked w @ [q]\<rparr>)
        | NoAnswer \<Rightarrow> (Unsettled, w\<lparr>asked := asked w @ [q]\<rparr>))
     else (Threw (choices_error user (choices q)), w))"

record TemplateGenerator =
  templatesDir :: path

definition new_TemplateGenerator :: "path \<Rightarrow> TemplateGenerator" where
  "new_TemplateGenerator dirname = \<lparr>templatesDir = path_join dirname [''..'', ''templates'']\<rparr>"



definition selectFramework :: "prompter \<Rightarrow> string \<Rightarrow> world \<Rightarrow> string outcome \<times> world" where
  "selectFramework user category w =
    (let frameworks = property_read FRAMEWORK_OPTIONS category in
     if \<not> truthy frameworks then
       (Threw (Error False (''No frameworks available for category: '' @ category)), w)
     else
       inquirer_prompt user
         \<lparr>qtype = ''list'', qname = ''framework'',
          qmessage = ''Please select the '' @ category @ '' framework:'',
          choices = frameworks\<rparr> w)"

text \<open>\<open>error instanceof Error ? error.message : 'Unknown error'\<close>\<close>

fun errorMessage :: "thrown \<Rightarrow> string" where
  "errorMessage (Error t m) = m"
| "errorMessage (NonError t) = ''Unknown error''"

text \<open>The post-processing block of \<open>generateTemplate\<close>, entered when \<open>ai === 'cursor'\<close>.\<close>

definition migrate_cursorrules :: "path \<Rightarrow> node \<Rightarrow> thrown option \<times> node" where
  "migrate_cursorrules outputDir fs =
    (let oldRulesPath = path_join outputDir [''.cursorrules''] in
     if pathExists fs oldRulesPath then
       (let rulesDir = path_join outputDir [''rules''] in
        case ensureDir fs rulesDir of
          (Some e, fs1) \<Rightarrow> (Some e, fs1)
        | (None, fs1) \<Rightarrow>
           (let newRulesPath = path_join rulesDir [''rules.mdc''] in
            move fs1 oldRulesPath newRulesPath))
     else (None, fs))"

text \<open>The \<open>try\<close> block of \<open>generateTemplate\<close>: what it throws, if anything, and the state it leaves.\<close>

definition generateTemplate_try ::
  "string \<Rightarrow> string \<Rightarrow> path \<Rightarrow> path \<Rightarrow> world \<Rightarrow> thrown option \<times> world" where
  "generateTemplate_try ai framework templatePath outputDir w =
    (case copy (files w) templatePath outputDir of
       (Some e, fs1) \<Rightarrow> (Some e, w\<lparr>files := fs1\<rparr>)
     | (None, fs1) \<Rightarrow>
        (case (if ai = ''cursor'' then migrate_cursorrules outputDir fs1 else (None, fs1)) of
           (Some e, fs2) \<Rightarrow> (Some e, w\<lparr>files := fs2\<rparr>)
         | (None, fs2) \<Rightarrow>
            (None,
             console_log (Gray, folder @ '' Files created in: '' @ joined_string outputDir [''.'' @ ai])
               (console_log
                  (Green, check_mark @ '' Successfully generated '' @ ai @ '' template for ''
                          @ framework @ ''!'')
                  (w\<lparr>files := fs2\<rparr>)))))"

definition generateTemplate ::
  "TemplateGenerator \<Rightarrow> path \<Rightarrow> string \<Rightarrow> string \<Rightarrow> string \<Rightarrow> world \<Rightarrow> unit outcome \<times> world" where
  "generateTemplate this cwd ai category framework w =
    (let templatePath = path_join (templatesDir this) [ai, category, framework] in
     if \<not> pathExists (files w) templatePath then
       (Returned (),
        console_log
          (Red, cross_mark @ '' Template not found for '' @ ai @ ''/'' @ category @ ''/'' @ framework)
          w)
     else
       (let outputDir = path_join cwd [''.'' @ ai] in
        case ensureDir (files w) outputDir of
          (Some e, fs1) \<Rightarrow> (Threw e, w\<lparr>files := fs1\<rparr>)
        | (None, fs1) \<Rightarrow>
           (case generateTemplate_try ai framework templatePath outputDir (w\<lparr>files := fs1\<rparr>) of
              (Some error, w') \<Rightarrow>
                (Returned (),
                 console_log (Red, cross_mark @ '' Error generating template: '' @ errorMessage error) w')
            | (None, w') \<Rightarrow> (Returned (), w'))))"





section \<open>Notions the properties are stated with\<close>

text \<open>The two lines \<open>generateTemplate\<close> prints when nothing failed.\<close>

definition success_lines :: "string \<Rightarrow> string \<Rightarrow> path \<Rightarrow> line list" where
  "success_lines ai framework outputDir =
    [(Green, check_mark @ '' Successfully generated '' @ ai @ '' template for '' @ framework @ ''!''),
     (Gray, folder @ '' Files created in: '' @ joined_string outputDir [''.'' @ ai])]"

text \<open>
  The two paths \<open>generateTemplate\<close> computes: the template directory of a triple and the
  destination \<open>.ai\<close> below the working directory.
\<close>

definition templatePath :: "TemplateGenerator \<Rightarrow> string \<Rightarrow> string \<Rightarrow> string \<Rightarrow> path" where
  "templatePath this ai category framework = path_join (templatesDir this) [ai, category, framework]"

definition outputDir :: "path \<Rightarrow> string \<Rightarrow> path" where
  "outputDir cwd ai = path_join cwd [''.'' @ ai]"

text \<open>A run of \<open>generateTemplate\<close> from \<open>w\<close> returns in \<open>w'\<close> and has printed the success lines.\<close>

definition succeeds ::
  "TemplateGenerator \<Rightarrow> path \<Rightarrow> string \<Rightarrow> string \<Rightarrow> string \<Rightarrow> world \<Rightarrow> world \<Rightarrow> bool" where
  "succeeds this cwd ai category framework w w' \<longleftrightarrow>
     generateTemplate this cwd ai category framework w = (Returned (), w') \<and>
     stdout w' = stdout w @ success_lines ai framework (outputDir cwd ai)"

text \<open>
  Two entries at the same relative path clash when both exist and exactly one of them is a
  directory: the copy refuses to put a file over a directory or a directory over a file.
\<close>

definition clash :: "entry option \<Rightarrow> entry option \<Rightarrow> bool" where
  "clash a b \<longleftrightarrow> a \<noteq> None \<and> b \<noteq> None \<and> (a = Some IsDirectory) \<noteq> (b = Some IsDirectory)"

text \<open>A triple drawn from the option tables: what the three prompts can answer.\<close>

definition offered :: "string \<Rightarrow> string \<Rightarrow> string \<Rightarrow> bool" where
  "offered ai category framework \<longleftrightarrow>
     ai \<in> set (map choice_value AI_OPTIONS) \<and>
     category \<in> set (map choice_value CATEGORY_OPTIONS) \<and>
     framework \<in> set (map choice_value
        (case map_of FRAMEWORK_OPTIONS category of None \<Rightarrow> [] | Some fws \<Rightarrow> fws))"

text \<open>The categories under which the table lists a framework identifier.\<close>

definition categories_of :: "string \<Rightarrow> string list" where
  "categories_of f =
    map fst (filter (\<lambda>e. f \<in> set (map choice_value (snd e))) FRAMEWORK_OPTIONS)"

definition all_frameworks :: "string list" where
  "all_frameworks = concat (map (\<lambda>e. map choice_value (snd e)) FRAMEWORK_OPTIONS)"

text \<open>
  A small installation for the concrete runs: the package under \<open>/pkg\<close> (the compiled
  program in \<open>/pkg/dist\<close>, two templates under \<open>/pkg/templates\<close>) and an empty project
  directory \<open>/home/project\<close> in which the command is started.
\<close>

definition example_generator :: TemplateGenerator where
  "example_generator = new_TemplateGenerator [''pkg'', ''dist'']"

definition example_cwd :: path where
  "example_cwd = [''home'', ''project'']"

definition example_disk :: node where
  "example_disk =
    Dir [(''pkg'',
           Dir [(''dist'', Dir []),
                (''templates'',
                  Dir [(''cursor'',
                         Dir [(''backend'', Dir [(''fastify'', Dir [(''rules.mdc'', File ''fastify rules'')])])]),
                       (''claude'',
                         Dir [(''frontend'', Dir [(''react'', Dir [(''project_knowledge.md'', File ''react notes'')])])])])]),
         (''home'', Dir [(''project'', Dir [])])]"

definition example_world :: world where
  "example_world = \<lparr>files = example_disk, stdout = [], stderr = [], asked = []\<rparr>"

text \<open>
  The example installation in which \<open>templates/cursor/backend/fastify\<close> is a regular file.
\<close>

definition template_file_world :: world where
  "template_file_world =
    \<lparr>files =
       Dir [(''pkg'',
              Dir [(''dist'', Dir []),
                   (''templates'',
                     Dir [(''cursor'', Dir [(''backend'', Dir [(''fastify'', File ''fastify rules'')])])])]),
            (''home'', Dir [(''project'', Dir [])])],
     stdout = [], stderr = [], asked = []\<rparr>"


text \<open>
  A user at a terminal who confirms the first choice of every list: \<open>cursor\<close>,
  \<open>backend\<close>, and the first framework of the category.
\<close>

definition first_choices :: prompter where
  "first_choices =
    \<lparr>reply = (\<lambda>q. Answer (case choices q of
                              ChoiceArray (c # cs) \<Rightarrow> choice_value c
                            | _ \<Rightarrow> [])),
     choices_error = (\<lambda>v. Error False ''choices'')\<rparr>"

text \<open>
  The same installation with other contents: the entries of the template directory of
  (cursor, backend, fastify), of (claude, frontend, react), and of the project directory.
\<close>

definition install ::
  "(string \<times> node) list \<Rightarrow> (string \<times> node) list \<Rightarrow> (string \<times> node) list \<Rightarrow> world" where
  "install cursor_fastify claude_react project =
    \<lparr>files =
       Dir [(''pkg'',
              Dir [(''dist'', Dir []),
                   (''templates'',
                     Dir [(''cursor'', Dir [(''backend'', Dir [(''fastify'', Dir cursor_fastify)])]),
                          (''claude'', Dir [(''frontend'', Dir [(''react'', Dir claude_react)])])])]),
            (''home'', Dir [(''project'', Dir project)])],
     stdout = [], stderr = [], asked = []\<rparr>"


section \<open>Properties of the file-system operations\<close>

lemma path_join_cursorrules: "path_join p [''.cursorrules''] = p @ [''.cursorrules'']"
  by (simp add: path_join_def push_segment_def)

lemma path_join_rules: "path_join p [''rules''] = p @ [''rules'']"
  by (simp add: path_join_def push_segment_def)

lemma path_join_rules_mdc: "path_join p [''rules.mdc''] = p @ [''rules.mdc'']"
  by (simp add: path_join_def push_segment_def)

lemma lookup_append:
  "lookup fs (p @ q) = (case lookup fs p of None \<Rightarrow> None | Some n \<Rightarrow> lookup n q)"
proof (induction p arbitrary: fs)
  case Nil
  show ?case by simp
next
  case (Cons x p)
  show ?case
  proof (cases fs)
    case (File c)
    then show ?thesis by simp
  next
    case (Dir es)
    then show ?thesis using Cons.IH by (simp split: option.splits)
  qed
qed

lemma stat_Nil: "stat n [] = Some (entry_of n)"
  by (simp add: stat_def)

lemma stat_File_Cons: "stat (File c) (x # xs) = None"
  by (simp add: stat_def)

lemma stat_Dir_Cons:
  "stat (Dir es) (x # xs) = (case map_of es x of None \<Rightarrow> None | Some n \<Rightarrow> stat n xs)"
  by (simp add: stat_def split: option.splits)

lemma stat_append:
  "stat fs (p @ q) = (case lookup fs p of None \<Rightarrow> None | Some n \<Rightarrow> stat n q)"
  by (simp add: stat_def lookup_append split: option.splits)

lemma stat_eq_IsFile: "stat fs p = Some (IsFile c) \<longleftrightarrow> lookup fs p = Some (File c)"
proof -
  have "\<And>n. entry_of n = IsFile c \<longleftrightarrow> n = File c"
    by (case_tac n) simp_all
  then show ?thesis by (auto simp: stat_def)
qed

lemma stat_eq_None: "stat fs p = None \<longleftrightarrow> lookup fs p = None"
  by (simp add: stat_def)

lemma stat_eq_IsDirectory: "stat fs p = Some IsDirectory \<longleftrightarrow> (\<exists>es. lookup fs p = Some (Dir es))"
proof -
  have "\<And>n. entry_of n = IsDirectory \<longleftrightarrow> (\<exists>es. n = Dir es)"
    by (case_tac n) simp_all
  then show ?thesis by (auto simp: stat_def)
qed

lemma stat_put_at:
  "p = [] \<or> (\<exists>es. lookup fs (butlast p) = Some (Dir es)) \<Longrightarrow>
   stat (put_at p n fs) q = (if prefix p q then stat n (drop (length p) q) else stat fs q)"
proof (induction p n fs arbitrary: q rule: put_at.induct)
  case (1 n fs)
  then show ?case by simp
next
  case (2 x xs n c)
  then show ?case by (cases xs) simp_all
next
  case (3 x n es)
  then show ?case
    by (cases q) (auto simp: stat_Nil stat_Dir_Cons update_conv')
next
  case (4 x y ys n es)
  then show ?case
    by (cases q) (auto simp: stat_Nil stat_Dir_Cons update_conv' split: option.splits)
qed

lemma stat_remove:
  "p \<noteq> [] \<Longrightarrow> stat (remove p fs) q = (if prefix p q then None else stat fs q)"
proof (induction p fs arbitrary: q rule: remove.induct)
  case (1 fs)
  then show ?case by simp
next
  case (2 x xs c)
  then show ?case by (cases q) (auto simp: stat_Nil stat_File_Cons)
next
  case (3 x es)
  then show ?case
    by (cases q) (auto simp: stat_Nil stat_Dir_Cons delete_conv')
next
  case (4 x y ys es)
  then show ?case
    by (cases q) (auto simp: stat_Nil stat_Dir_Cons update_conv' split: option.splits)
qed

lemma stat_Dir_empty: "stat (Dir []) q = (if q = [] then Some IsDirectory else None)"
  by (cases q) (simp_all add: stat_def)

lemma mkdirs_stat:
  "mkdirs p fs = Some fs' \<Longrightarrow>
   stat fs' q = (if prefix q p then Some IsDirectory else stat fs q)"
proof (induction p fs arbitrary: fs' q rule: mkdirs.induct)
  case (1 p c)
  then show ?case by simp
next
  case (2 es)
  then show ?case by (cases q) (auto simp: stat_Nil)
next
  case (3 x xs es)
  then show ?case
    by (cases q) (auto simp: stat_Nil stat_Dir_Cons stat_Dir_empty update_conv' split: option.splits)
qed

lemma mkdirs_existing:
  "lookup fs p = Some (Dir es) \<Longrightarrow> mkdirs p fs = Some fs"
proof (induction p fs arbitrary: es rule: mkdirs.induct)
  case (1 p c)
  then show ?case by (cases p) simp_all
next
  case (2 es')
  then show ?case by simp
next
  case (3 x xs es')
  then show ?case by (auto simp: update_triv split: option.splits)
qed

lemma copy_stat:
  shows "wf_node s \<Longrightarrow> fst (copy_node rp s d) = [] \<Longrightarrow>
         stat (snd (copy_node rp s d)) q =
           (case stat s q of Some e \<Rightarrow> Some e
            | None \<Rightarrow> (case d of None \<Rightarrow> None | Some n \<Rightarrow> stat n q))"
    and "distinct (map fst ss) \<Longrightarrow> list_all (\<lambda>e. wf_node (snd e)) ss \<Longrightarrow>
         fst (copy_entries rp ss ds) = [] \<Longrightarrow>
         stat (Dir (snd (copy_entries rp ss ds))) q =
           (case stat (Dir ss) q of Some e \<Rightarrow> Some e | None \<Rightarrow> stat (Dir ds) q)"
proof (induction rp s d and rp ss ds arbitrary: q and q rule: copy_node_copy_entries.induct)
  case (1 rp c)
  then show ?case by (cases q) (simp_all add: stat_Nil stat_File_Cons)
next
  case (2 rp c c')
  then show ?case by (cases q) (simp_all add: stat_Nil stat_File_Cons)
next
  case (3 rp c ds)
  then show ?case by simp
next
  case (4 rp ss)
  obtain cs ds' where ce: "copy_entries rp ss [] = (cs, ds')"
    by (cases "copy_entries rp ss []")
  with "4.prems" have cs: "cs = []" by simp
  have "stat (Dir ds') q =
      (case stat (Dir ss) q of Some e \<Rightarrow> Some e | None \<Rightarrow> stat (Dir []) q)"
    using "4.IH"[of q] "4.prems" ce by simp
  then show ?case
    using ce by (cases q) (simp_all add: stat_Nil stat_Dir_empty split: option.splits)
next
  case (5 rp ss c')
  then show ?case by simp
next
  case (6 rp ss ds)
  then show ?case by (auto split: prod.splits option.splits)
next
  case (7 rp ds)
  then show ?case by (cases q) (simp_all add: stat_Nil stat_Dir_Cons)
next
  case (8 rp k s ss ds)
  obtain c1 n where cn: "copy_node (rp @ [k]) s (map_of ds k) = (c1, n)"
    by (cases "copy_node (rp @ [k]) s (map_of ds k)")
  obtain c2 ds' where ce: "copy_entries rp ss (AList.update k n ds) = (c2, ds')"
    by (cases "copy_entries rp ss (AList.update k n ds)")
  from "8.prems" cn ce have c1: "c1 = []" and c2: "c2 = []" by simp_all
  from "8.prems" have k: "k \<notin> fst ` set ss" and dist: "distinct (map fst ss)"
    and wfs: "wf_node s" and wfss: "list_all (\<lambda>e. wf_node (snd e)) ss"
    by auto
  have nostat: "map_of ss k = None" using k by (simp add: map_of_eq_None_iff)
  have ih1: "\<And>q. stat n q =
      (case stat s q of Some e \<Rightarrow> Some e
       | None \<Rightarrow> (case map_of ds k of None \<Rightarrow> None | Some m \<Rightarrow> stat m q))"
    using "8.IH"(1)[OF wfs] cn c1 by simp
  have ih2: "\<And>q. stat (Dir ds') q =
      (case stat (Dir ss) q of Some e \<Rightarrow> Some e | None \<Rightarrow> stat (Dir (AList.update k n ds)) q)"
    using "8.IH"(2)[OF cn[symmetric] dist wfss] ce c2 by simp
  show ?case
  proof (cases q)
    case Nil
    then show ?thesis by (simp add: stat_Nil)
  next
    case (Cons x xs)
    show ?thesis
    proof (cases "x = k")
      case True
      then show ?thesis
        using cn ce Cons ih2[of q] ih1[of xs] nostat
        by (simp add: stat_Dir_Cons update_conv' split: option.splits)
    next
      case False
      then show ?thesis
        using cn ce Cons ih2[of q]
        by (simp add: stat_Dir_Cons update_conv' split: option.splits)
    qed
  qed
qed

lemma lookup_parent_dir:
  "lookup fs (p @ [x]) = Some n \<Longrightarrow> \<exists>es. lookup fs p = Some (Dir es)"
proof -
  assume a: "lookup fs (p @ [x]) = Some n"
  then obtain m where m: "lookup fs p = Some m" and mx: "lookup m [x] = Some n"
    by (auto simp: lookup_append split: option.splits)
  from mx show ?thesis using m by (cases m) simp_all
qed

lemma lookup_Dir_empty: "lookup (Dir []) q = (if q = [] then Some (Dir []) else None)"
  by (cases q) simp_all

lemma mkdirs_lookup_frame:
  "mkdirs p fs = Some fs' \<Longrightarrow> \<not> prefix q p \<Longrightarrow> lookup fs' q = lookup fs q"
proof (induction p fs arbitrary: fs' q rule: mkdirs.induct)
  case (1 p c)
  then show ?case by simp
next
  case (2 es)
  then show ?case by simp
next
  case (3 x xs es)
  then show ?case
    by (cases q) (auto simp: update_conv' lookup_Dir_empty split: option.splits)
qed

lemma generateTemplate_succeeds_unfold:
  assumes "succeeds this cwd ai category framework w w'"
  shows "\<exists>fs1 fs2 fs3.
     pathExists (files w) (path_join (templatesDir this) [ai, category, framework]) \<and>
     ensureDir (files w) (path_join cwd [''.'' @ ai]) = (None, fs1) \<and>
     copy fs1 (path_join (templatesDir this) [ai, category, framework]) (path_join cwd [''.'' @ ai]) = (None, fs2) \<and>
     (if ai = ''cursor'' then migrate_cursorrules (path_join cwd [''.'' @ ai]) fs2 else (None, fs2)) = (None, fs3) \<and>
     w' = w\<lparr>files := fs3, stdout := stdout w @ success_lines ai framework (path_join cwd [''.'' @ ai])\<rparr>"
  using assms
  unfolding succeeds_def outputDir_def generateTemplate_def generateTemplate_try_def Let_def console_log_def success_lines_def
  by (auto split: if_splits prod.splits option.splits)

subsection \<open>The prompts and the orchestration\<close>

lemma example_templatesDir: "templatesDir example_generator = [''pkg'', ''templates'']"
  by (simp add: example_generator_def new_TemplateGenerator_def path_join_def push_segment_def)










lemma selectFramework_known_category:
  "map_of FRAMEWORK_OPTIONS category = Some cs \<Longrightarrow>
   selectFramework user category w =
     inquirer_prompt user
       \<lparr>qtype = ''list'', qname = ''framework'',
        qmessage = ''Please select the '' @ category @ '' framework:'',
        choices = ChoiceArray cs\<rparr> w"
  by (simp add: selectFramework_def property_read_def)

lemma selectFramework_guard_throws:
  "map_of FRAMEWORK_OPTIONS category = None \<Longrightarrow> category \<notin> set object_prototype_members \<Longrightarrow>
   selectFramework user category w =
     (Threw (Error False (''No frameworks available for category: '' @ category)), w)"
  by (simp add: selectFramework_def property_read_def)

lemma selectFramework_inherited_member:
  "map_of FRAMEWORK_OPTIONS category = None \<Longrightarrow> category \<in> set object_prototype_members \<Longrightarrow>
   selectFramework user category w =
     (Threw (choices_error user (PrototypeMember category)), w)"
  by (simp add: selectFramework_def property_read_def inquirer_prompt_def)

subsection \<open>Well-formed trees, and what a successful copy leaves\<close>

lemma wf_node_child:
  "wf_node (Dir es) \<Longrightarrow> map_of es x = Some n \<Longrightarrow> wf_node n"
  by (auto simp: list_all_iff dest!: map_of_SomeD)

lemma wf_node_lookup:
  "wf_node fs \<Longrightarrow> lookup fs p = Some n \<Longrightarrow> wf_node n"
proof (induction p arbitrary: fs)
  case Nil
  then show ?case by simp
next
  case (Cons x p)
  show ?case
  proof (cases fs)
    case (File c)
    with Cons.prems show ?thesis by simp
  next
    case (Dir es)
    with Cons.prems obtain m where m: "map_of es x = Some m" and l: "lookup m p = Some n"
      by (auto split: option.splits)
    from Cons.prems(1) Dir m have "wf_node m" by (auto intro: wf_node_child)
    then show ?thesis using l by (rule Cons.IH)
  qed
qed

lemma lookup_prefix_dir:
  "lookup fs (p @ r) = Some n \<Longrightarrow> r \<noteq> [] \<Longrightarrow> \<exists>es. lookup fs p = Some (Dir es)"
proof -
  assume a: "lookup fs (p @ r) = Some n" and r: "r \<noteq> []"
  then obtain m where m: "lookup fs p = Some m" and mr: "lookup m r = Some n"
    by (auto simp: lookup_append split: option.splits)
  from mr r show ?thesis using m by (cases m; cases r) simp_all
qed

lemma mkdirs_parent_existing:
  "lookup fs dst = Some (Dir ds) \<Longrightarrow> mkdirs (butlast dst) fs = Some fs"
proof (cases dst rule: rev_cases)
  case Nil
  assume "lookup fs dst = Some (Dir ds)"
  with Nil show ?thesis by simp
next
  case (snoc p x)
  assume "lookup fs dst = Some (Dir ds)"
  with snoc obtain es where "lookup fs p = Some (Dir es)"
    by (auto dest: lookup_parent_dir)
  then show ?thesis using snoc by (simp add: mkdirs_existing)
qed

lemma ensureDir_ok: "ensureDir fs p = (None, fs') \<Longrightarrow> mkdirs p fs = Some fs'"
  by (auto simp: ensureDir_def split: option.splits)

lemma copy_ok:
  assumes ok: "copy fs src dst = (None, fs')" and d: "lookup fs dst = Some (Dir ds)"
  shows "\<exists>ss. lookup fs src = Some (Dir ss) \<and> \<not> prefix src dst \<and>
              fst (copy_node [] (Dir ss) (Some (Dir ds))) = [] \<and>
              fs' = put_at dst (snd (copy_node [] (Dir ss) (Some (Dir ds)))) fs"
proof -
  from ok obtain s where s: "lookup fs src = Some s"
    by (auto simp: copy_def split: option.splits)
  from ok s d have chk: "checkPaths s (Some (Dir ds)) src dst ''copy'' = None"
    by (auto simp: copy_def split: option.splits)
  then have dir: "is_dir s" and np: "\<not> prefix src dst"
    by (auto simp: checkPaths_def subdirError_def split: if_splits)
  from dir obtain ss where ss: "s = Dir ss" by (cases s) simp_all
  have mk: "mkdirs (butlast dst) fs = Some fs" using d by (rule mkdirs_parent_existing)
  from ok s d chk mk ss np show ?thesis
    by (auto simp: copy_def split: prod.splits list.splits)
qed

lemma copy_ok_stat:
  assumes ok: "copy fs src dst = (None, fs')" and d: "lookup fs dst = Some (Dir ds)"
    and s: "lookup fs src = Some s" and wf: "wf_node s"
  shows "stat fs' (dst @ r) = (case stat s r of Some e \<Rightarrow> Some e | None \<Rightarrow> stat fs (dst @ r))"
    and "\<not> prefix dst q \<Longrightarrow> stat fs' q = stat fs q"
proof -
  from copy_ok[OF ok d] s obtain ss where ss: "s = Dir ss"
    and nc: "fst (copy_node [] (Dir ss) (Some (Dir ds))) = []"
    and fs': "fs' = put_at dst (snd (copy_node [] (Dir ss) (Some (Dir ds)))) fs"
    by auto
  have par: "dst = [] \<or> (\<exists>es. lookup fs (butlast dst) = Some (Dir es))"
  proof (cases dst rule: rev_cases)
    case Nil
    then show ?thesis by simp
  next
    case (snoc p x)
    with d show ?thesis by (auto dest: lookup_parent_dir)
  qed
  have st: "\<And>q. stat (put_at dst n fs) q = (if prefix dst q then stat n (drop (length dst) q) else stat fs q)" for n
    using par by (rule stat_put_at)
  have cs: "stat (snd (copy_node [] (Dir ss) (Some (Dir ds)))) r =
      (case stat (Dir ss) r of Some e \<Rightarrow> Some e | None \<Rightarrow> stat (Dir ds) r)"
    using copy_stat(1)[of "Dir ss" "[]" "Some (Dir ds)" r] wf ss nc
    by (simp del: copy_node.simps split: option.splits)
  have "stat fs (dst @ r) = stat (Dir ds) r"
    using d by (simp add: stat_append)
  then show "stat fs' (dst @ r) = (case stat s r of Some e \<Rightarrow> Some e | None \<Rightarrow> stat fs (dst @ r))"
    using st cs ss fs' by (simp del: copy_node.simps split: option.splits)
  show "\<not> prefix dst q \<Longrightarrow> stat fs' q = stat fs q"
    using st fs' by simp
qed

lemma lookup_remove_other:
  "\<not> prefix p q \<Longrightarrow> \<not> prefix q p \<Longrightarrow> lookup (remove p fs) q = lookup fs q"
proof (induction p fs arbitrary: q rule: remove.induct)
  case (1 fs)
  then show ?case by simp
next
  case (2 x xs c)
  then show ?case by simp
next
  case (3 x es)
  then show ?case by (cases q) (auto simp: delete_conv')
next
  case (4 x y ys es)
  then show ?case by (cases q) (auto simp: update_conv' split: option.splits)
qed

subsection \<open>When the copy raises no conflict\<close>

lemma clash_None [simp]: "clash a None = False" "clash None b = False"
  by (simp_all add: clash_def)

lemma clash_same [simp]: "clash a a = False"
  by (simp add: clash_def)

lemma clash_file_dir [simp]:
  "clash (Some (IsFile c)) (Some IsDirectory)" "clash (Some IsDirectory) (Some (IsFile c))"
  "\<not> clash (Some (IsFile c)) (Some (IsFile c'))"
  by (simp_all add: clash_def)

lemma copy_no_conflict:
  shows "wf_node s \<Longrightarrow>
         (\<forall>q. \<not> clash (stat s q) (case d of None \<Rightarrow> None | Some n \<Rightarrow> stat n q)) \<Longrightarrow>
         fst (copy_node rp s d) = []"
    and "distinct (map fst ss) \<Longrightarrow> list_all (\<lambda>e. wf_node (snd e)) ss \<Longrightarrow>
         (\<forall>q. \<not> clash (stat (Dir ss) q) (stat (Dir ds) q)) \<Longrightarrow>
         fst (copy_entries rp ss ds) = []"
proof (induction rp s d and rp ss ds rule: copy_node_copy_entries.induct)
  case (1 rp c)
  then show ?case by simp
next
  case (2 rp c c')
  then show ?case by simp
next
  case (3 rp c ds)
  from "3.prems"(2) have "\<not> clash (stat (File c) []) (stat (Dir ds) [])" by (simp del: stat_Nil)
  then show ?case by (simp add: stat_Nil)
next
  case (4 rp ss)
  have "fst (copy_entries rp ss []) = []"
    using "4.prems" by (intro "4.IH") (auto simp: stat_Dir_empty stat_Nil)
  then show ?case by (auto split: prod.splits)
next
  case (5 rp ss c')
  from "5.prems"(2) have "\<not> clash (stat (Dir ss) []) (stat (File c') [])" by (simp del: stat_Nil)
  then show ?case by (simp add: stat_Nil)
next
  case (6 rp ss ds)
  have "fst (copy_entries rp ss ds) = []"
    using "6.prems" by (intro "6.IH") auto
  then show ?case by (auto split: prod.splits)
next
  case (7 rp ds)
  then show ?case by simp
next
  case (8 rp k s ss ds)
  obtain c1 n where cn: "copy_node (rp @ [k]) s (map_of ds k) = (c1, n)"
    by (cases "copy_node (rp @ [k]) s (map_of ds k)")
  obtain c2 ds' where ce: "copy_entries rp ss (AList.update k n ds) = (c2, ds')"
    by (cases "copy_entries rp ss (AList.update k n ds)")
  from "8.prems" have k: "k \<notin> fst ` set ss" and dist: "distinct (map fst ss)"
    and wfs: "wf_node s" and wfss: "list_all (\<lambda>e. wf_node (snd e)) ss"
    by auto
  have nostat: "map_of ss k = None" using k by (simp add: map_of_eq_None_iff)
  have nc: "\<And>q. \<not> clash (stat (Dir ((k, s) # ss)) q) (stat (Dir ds) q)"
    using "8.prems"(3) by blast
  have a: "\<forall>q. \<not> clash (stat s q) (case map_of ds k of None \<Rightarrow> None | Some n \<Rightarrow> stat n q)"
  proof
    fix q
    show "\<not> clash (stat s q) (case map_of ds k of None \<Rightarrow> None | Some n \<Rightarrow> stat n q)"
      using nc[of "k # q"] by (simp add: stat_Dir_Cons)
  qed
  have c1: "c1 = []" using "8.IH"(1)[OF wfs a] cn by simp
  have b: "\<forall>q. \<not> clash (stat (Dir ss) q) (stat (Dir (AList.update k n ds)) q)"
  proof
    fix q
    show "\<not> clash (stat (Dir ss) q) (stat (Dir (AList.update k n ds)) q)"
    proof (cases q)
      case Nil
      then show ?thesis by (simp add: stat_Nil)
    next
      case (Cons x xs)
      show ?thesis
      proof (cases "x = k")
        case True
        then show ?thesis using Cons nostat by (simp add: stat_Dir_Cons)
      next
        case False
        then show ?thesis using Cons nc[of q] by (simp add: stat_Dir_Cons update_conv')
      qed
    qed
  qed
  have c2: "c2 = []" using "8.IH"(2)[OF cn[symmetric] dist wfss b] ce by simp
  show ?case using cn ce c1 c2 by simp
qed

subsection \<open>The steps of generateTemplate\<close>

lemma prefix_append_self_iff: "prefix (p @ r) p \<longleftrightarrow> r = []"
  by (metis append_Nil2 prefix_def prefix_order.antisym prefixI same_append_eq)

lemma generate_copy_stat:
  assumes e: "ensureDir fs0 od = (None, fs1)" and c: "copy fs1 tp od = (None, fs2)"
    and wfs: "wf_node s" and ex: "lookup fs0 tp = Some s"
  shows "stat fs2 (od @ r) = (case stat s r of Some e \<Rightarrow> Some e | None \<Rightarrow> stat fs0 (od @ r))"
    and "\<not> prefix od q \<Longrightarrow> stat fs2 q = (if prefix q od then Some IsDirectory else stat fs0 q)"
    and "is_dir s" and "\<not> prefix tp od"
proof -
  from e have mk: "mkdirs od fs0 = Some fs1" by (rule ensureDir_ok)
  have "stat fs1 od = Some IsDirectory" using mkdirs_stat[OF mk, of od] by simp
  then obtain ds where ds: "lookup fs1 od = Some (Dir ds)"
    by (auto simp: stat_eq_IsDirectory)
  from copy_ok[OF c ds] obtain ss where ss: "lookup fs1 tp = Some (Dir ss)"
    and np: "\<not> prefix tp od" by auto
  have same: "lookup fs1 tp = lookup fs0 tp" using mk np by (rule mkdirs_lookup_frame)
  with ss ex have s: "s = Dir ss" by simp
  then show "is_dir s" by simp
  show "\<not> prefix tp od" by (rule np)
  have s1: "lookup fs1 tp = Some s" using same ex by simp
  have a: "stat fs2 (od @ r) = (case stat s r of Some e \<Rightarrow> Some e | None \<Rightarrow> stat fs1 (od @ r))"
    using c ds s1 wfs by (rule copy_ok_stat(1))
  have b: "stat fs1 (od @ r) = (if r = [] then Some IsDirectory else stat fs0 (od @ r))"
    using mkdirs_stat[OF mk, of "od @ r"] by (simp add: prefix_append_self_iff)
  show "stat fs2 (od @ r) = (case stat s r of Some e \<Rightarrow> Some e | None \<Rightarrow> stat fs0 (od @ r))"
    using a b s by (cases "r = []") (simp_all add: stat_Nil split: option.splits)
  assume nq: "\<not> prefix od q"
  have "stat fs2 q = stat fs1 q" using c ds s1 wfs nq by (rule copy_ok_stat(2))
  then show "stat fs2 q = (if prefix q od then Some IsDirectory else stat fs0 q)"
    using mkdirs_stat[OF mk, of q] by simp
qed

lemma butlast_snoc2: "butlast (p @ [a, b]) = p @ [a]"
  by (simp add: butlast_append)

lemma move_ok:
  assumes mv: "move fs src dst = (None, fs')"
    and par: "lookup fs (butlast dst) = Some (Dir es)"
    and np1: "\<not> prefix dst src" and np2: "\<not> prefix src dst"
  shows "\<exists>x. lookup fs src = Some x \<and> fs' = put_at dst x (remove src (remove dst fs))"
proof -
  from mv obtain x where x: "lookup fs src = Some x"
    by (auto simp: move_def split: option.splits)
  have mk: "mkdirs (butlast dst) fs = Some fs" using par by (rule mkdirs_existing)
  have l: "lookup (remove dst fs) src = Some x"
    using lookup_remove_other[OF np1 np2, of fs] x by simp
  from mv x mk l show ?thesis
    by (auto simp: move_def rename_def split: option.splits)
qed

lemma migrate_cursorrules_none:
  "lookup fs (od @ [''.cursorrules'']) = None \<Longrightarrow> migrate_cursorrules od fs = (None, fs)"
  by (simp add: migrate_cursorrules_def path_join_cursorrules pathExists_def)

lemma migrate_cursorrules_ok:
  assumes m: "migrate_cursorrules od fs = (None, fs')"
    and x: "lookup fs (od @ [''.cursorrules'']) = Some x"
  shows "stat fs' (od @ r) =
           (if prefix [''rules'', ''rules.mdc''] r then stat x (drop 2 r)
            else if prefix [''.cursorrules''] r then None
            else if r = [''rules''] then Some IsDirectory
            else stat fs (od @ r))"
    and "\<not> prefix od q \<Longrightarrow> stat fs' q = stat fs q"
proof -
  let ?src = "od @ [''.cursorrules'']" and ?rd = "od @ [''rules'']"
    and ?dst = "od @ [''rules'', ''rules.mdc'']"
  from m x obtain fs1 where e: "ensureDir fs ?rd = (None, fs1)" and mv: "move fs1 ?src ?dst = (None, fs')"
    by (auto simp: migrate_cursorrules_def path_join_cursorrules path_join_rules
        path_join_rules_mdc pathExists_def Let_def split: prod.splits option.splits)
  from e have mk: "mkdirs ?rd fs = Some fs1" by (rule ensureDir_ok)
  have st1: "\<And>q. stat fs1 q = (if prefix q ?rd then Some IsDirectory else stat fs q)"
    using mkdirs_stat[OF mk] by simp
  have "stat fs1 ?rd = Some IsDirectory" using st1[of ?rd] by simp
  then obtain es where es: "lookup fs1 ?rd = Some (Dir es)"
    by (auto simp: stat_eq_IsDirectory)
  have x1: "lookup fs1 ?src = Some x"
    using mkdirs_lookup_frame[OF mk, of ?src] x by simp
  have "\<exists>y. lookup fs1 ?src = Some y \<and> fs' = put_at ?dst y (remove ?src (remove ?dst fs1))"
    using mv by (rule move_ok) (simp_all add: butlast_snoc2 es)
  with x1 have fs': "fs' = put_at ?dst x (remove ?src (remove ?dst fs1))" by simp
  have st2: "\<And>q. stat (remove ?src (remove ?dst fs1)) q =
      (if prefix ?src q \<or> prefix ?dst q then None else stat fs1 q)"
    by (simp add: stat_remove)
  have "stat (remove ?src (remove ?dst fs1)) ?rd = Some IsDirectory"
    using st2[of ?rd] st1[of ?rd] by simp
  then obtain es' where es': "lookup (remove ?src (remove ?dst fs1)) (butlast ?dst) = Some (Dir es')"
    by (auto simp: stat_eq_IsDirectory butlast_snoc2)
  have st3: "\<And>q. stat fs' q =
      (if prefix ?dst q then stat x (drop (length ?dst) q)
       else stat (remove ?src (remove ?dst fs1)) q)"
    unfolding fs' using es' by (intro stat_put_at) blast
  have oddir: "\<exists>ds. lookup fs od = Some (Dir ds)"
    using x by (auto dest: lookup_parent_dir)
  then have odstat: "stat fs od = Some IsDirectory" by (simp add: stat_eq_IsDirectory)
  show "stat fs' (od @ r) =
           (if prefix [''rules'', ''rules.mdc''] r then stat x (drop 2 r)
            else if prefix [''.cursorrules''] r then None
            else if r = [''rules''] then Some IsDirectory
            else stat fs (od @ r))"
    using st3[of "od @ r"] st2[of "od @ r"] st1[of "od @ r"] odstat
    by (auto simp: prefix_append_self_iff prefix_Cons split: if_splits)
  assume nq: "\<not> prefix od q"
  have a: "\<not> prefix ?dst q" "\<not> prefix ?src q"
    using nq by (auto dest: append_prefixD)
  have b: "prefix q ?rd \<Longrightarrow> stat fs q = Some IsDirectory"
  proof -
    assume "prefix q ?rd"
    then have "prefix q od \<or> q = ?rd" by (metis prefix_snoc)
    with nq have "strict_prefix q od" by auto
    then obtain t where t: "od = q @ t" "t \<noteq> []" by (auto simp: strict_prefix_def prefix_def)
    with oddir obtain ds where "lookup fs (q @ t) = Some (Dir ds)" by auto
    from lookup_prefix_dir[OF this t(2)] show ?thesis by (simp add: stat_eq_IsDirectory)
  qed
  show "stat fs' q = stat fs q"
    using st3[of q] st2[of q] st1[of q] a b by auto
qed

lemma succeeds_stat_template:
  assumes su: "succeeds this cwd ai category framework w w'"
    and s: "lookup (files w) (templatePath this ai category framework) = Some s"
    and wfs: "wf_node s"
  shows "\<exists>fs2. is_dir s \<and>
           \<not> prefix (templatePath this ai category framework) (outputDir cwd ai) \<and>
           (\<forall>r. stat fs2 (outputDir cwd ai @ r) =
                 (case stat s r of Some e \<Rightarrow> Some e | None \<Rightarrow> stat (files w) (outputDir cwd ai @ r))) \<and>
           (\<forall>q. \<not> prefix (outputDir cwd ai) q \<longrightarrow>
                 stat fs2 q = (if prefix q (outputDir cwd ai) then Some IsDirectory else stat (files w) q)) \<and>
           (if ai = ''cursor'' then migrate_cursorrules (outputDir cwd ai) fs2 else (None, fs2)) = (None, files w') \<and>
           stdout w' = stdout w @ success_lines ai framework (outputDir cwd ai) \<and>
           stderr w' = stderr w \<and> asked w' = asked w"
proof -
  let ?tp = "templatePath this ai category framework" and ?od = "outputDir cwd ai"
  from generateTemplate_succeeds_unfold[OF su] obtain fs1 fs2 fs3 where
    e: "ensureDir (files w) ?od = (None, fs1)"
    and c: "copy fs1 ?tp ?od = (None, fs2)"
    and m: "(if ai = ''cursor'' then migrate_cursorrules ?od fs2 else (None, fs2)) = (None, fs3)"
    and w': "w' = w\<lparr>files := fs3, stdout := stdout w @ success_lines ai framework ?od\<rparr>"
    unfolding templatePath_def outputDir_def by blast
  note k = generate_copy_stat[OF e c wfs s]
  show ?thesis
    apply (rule exI[of _ fs2])
    using k m w' by simp
qed

lemma succeeds_stat:
  assumes su: "succeeds this cwd ai category framework w w'" and wf: "wf_node (files w)"
  shows "\<exists>s fs2. lookup (files w) (templatePath this ai category framework) = Some s \<and> is_dir s \<and>
           \<not> prefix (templatePath this ai category framework) (outputDir cwd ai) \<and>
           (\<forall>r. stat fs2 (outputDir cwd ai @ r) =
                 (case stat s r of Some e \<Rightarrow> Some e | None \<Rightarrow> stat (files w) (outputDir cwd ai @ r))) \<and>
           (\<forall>q. \<not> prefix (outputDir cwd ai) q \<longrightarrow>
                 stat fs2 q = (if prefix q (outputDir cwd ai) then Some IsDirectory else stat (files w) q)) \<and>
           (if ai = ''cursor'' then migrate_cursorrules (outputDir cwd ai) fs2 else (None, fs2)) = (None, files w') \<and>
           stdout w' = stdout w @ success_lines ai framework (outputDir cwd ai) \<and>
           stderr w' = stderr w \<and> asked w' = asked w"
proof -
  let ?tp = "templatePath this ai category framework" and ?od = "outputDir cwd ai"
  from generateTemplate_succeeds_unfold[OF su] obtain fs1 fs2 fs3 where
    ex: "pathExists (files w) ?tp" and e: "ensureDir (files w) ?od = (None, fs1)"
    and c: "copy fs1 ?tp ?od = (None, fs2)"
    and m: "(if ai = ''cursor'' then migrate_cursorrules ?od fs2 else (None, fs2)) = (None, fs3)"
    and w': "w' = w\<lparr>files := fs3, stdout := stdout w @ success_lines ai framework ?od\<rparr>"
    unfolding templatePath_def outputDir_def by blast
  from ex obtain s where s: "lookup (files w) ?tp = Some s" by (auto simp: pathExists_def)
  have wfs: "wf_node s" using wf s by (rule wf_node_lookup)
  note k = generate_copy_stat[OF e c wfs s]
  show ?thesis
    apply (rule exI[of _ s], rule exI[of _ fs2])
    using s k m w' by simp
qed

lemma mkdirs_None_iff:
  "mkdirs p fs = None \<longleftrightarrow> (\<exists>q c. prefix q p \<and> lookup fs q = Some (File c))"
proof (induction p fs rule: mkdirs.induct)
  case (1 p c)
  have "prefix [] p \<and> lookup (File c) [] = Some (File c)" by simp
  then show ?case by (simp only: mkdirs.simps) blast
next
  case (2 es)
  then show ?case by simp
next
  case (3 x xs es)
  show ?case
  proof (cases "map_of es x")
    case None
    have l: "\<And>q. lookup (Dir []) q \<noteq> Some (File c)" for c
      by (simp add: lookup_Dir_empty)
    have "mkdirs (x # xs) (Dir es) = None \<longleftrightarrow> mkdirs xs (Dir []) = None"
      using None by (simp split: option.splits)
    also have "\<dots> \<longleftrightarrow> False" using "3.IH" None l by simp
    also have "False \<longleftrightarrow> (\<exists>q c. prefix q (x # xs) \<and> lookup (Dir es) q = Some (File c))"
      using None by (auto simp: prefix_Cons)
    finally show ?thesis .
  next
    case (Some n)
    have "mkdirs (x # xs) (Dir es) = None \<longleftrightarrow> mkdirs xs n = None"
      using Some by (simp split: option.splits)
    also have "\<dots> \<longleftrightarrow> (\<exists>q c. prefix q xs \<and> lookup n q = Some (File c))"
      using "3.IH" Some by simp
    also have "\<dots> \<longleftrightarrow> (\<exists>q c. prefix q (x # xs) \<and> lookup (Dir es) q = Some (File c))"
    proof
      assume "\<exists>q c. prefix q xs \<and> lookup n q = Some (File c)"
      then obtain q c where "prefix q xs" "lookup n q = Some (File c)" by blast
      then have "prefix (x # q) (x # xs) \<and> lookup (Dir es) (x # q) = Some (File c)"
        using Some by simp
      then show "\<exists>q c. prefix q (x # xs) \<and> lookup (Dir es) q = Some (File c)" by blast
    next
      assume "\<exists>q c. prefix q (x # xs) \<and> lookup (Dir es) q = Some (File c)"
      then obtain q c where q: "prefix q (x # xs)" "lookup (Dir es) q = Some (File c)" by blast
      then obtain q' where "q = x # q'" "prefix q' xs" by (cases q) auto
      with q Some show "\<exists>q c. prefix q xs \<and> lookup n q = Some (File c)" by auto
    qed
    finally show ?thesis .
  qed
qed

lemma prefixes_of_dir_not_file:
  assumes d: "lookup fs p = Some (Dir ds)" and q: "prefix q p"
  shows "lookup fs q \<noteq> Some (File c)"
proof -
  from q obtain t where t: "p = q @ t" by (auto simp: prefix_def)
  show ?thesis
  proof (cases "t = []")
    case True
    with d t show ?thesis by simp
  next
    case False
    from d t have "lookup fs (q @ t) = Some (Dir ds)" by simp
    from lookup_prefix_dir[OF this False] show ?thesis by auto
  qed
qed

lemma migrate_cursorrules_file_ok:
  assumes x: "lookup fs (od @ [''.cursorrules'']) = Some (File c)"
    and r1: "\<forall>c'. lookup fs (od @ [''rules'']) \<noteq> Some (File c')"
    and r2: "\<forall>es. lookup fs (od @ [''rules'', ''rules.mdc'']) \<noteq> Some (Dir es)"
  shows "\<exists>fs'. migrate_cursorrules od fs = (None, fs')"
proof -
  let ?src = "od @ [''.cursorrules'']" and ?rd = "od @ [''rules'']"
    and ?dst = "od @ [''rules'', ''rules.mdc'']"
  from x obtain ds where od: "lookup fs od = Some (Dir ds)" by (auto dest: lookup_parent_dir)
  have "mkdirs ?rd fs \<noteq> None"
  proof
    assume "mkdirs ?rd fs = None"
    then obtain q c' where q: "prefix q ?rd" and f: "lookup fs q = Some (File c')"
      by (auto simp: mkdirs_None_iff)
    from q have "q = ?rd \<or> prefix q od" by (metis prefix_snoc)
    then show False
    proof
      assume "q = ?rd" with f r1 show False by simp
    next
      assume "prefix q od"
      from prefixes_of_dir_not_file[OF od this, of c'] f show False by simp
    qed
  qed
  then obtain fs1 where mk: "mkdirs ?rd fs = Some fs1" by auto
  then have e: "ensureDir fs ?rd = (None, fs1)" by (simp add: ensureDir_def)
  have "stat fs1 ?rd = Some IsDirectory" using mkdirs_stat[OF mk, of ?rd] by simp
  then obtain es where es: "lookup fs1 ?rd = Some (Dir es)"
    by (auto simp: stat_eq_IsDirectory)
  have x1: "lookup fs1 ?src = Some (File c)"
    using mkdirs_lookup_frame[OF mk, of ?src] x by simp
  have d1: "lookup fs1 ?dst = lookup fs ?dst"
    using mkdirs_lookup_frame[OF mk, of ?dst] by simp
  have chk: "checkPaths (File c) (lookup fs1 ?dst) ?src ?dst ''move'' = None"
  proof (cases "lookup fs ?dst")
    case None
    then show ?thesis using d1 by (simp add: checkPaths_def subdirError_def)
  next
    case (Some dn)
    with r2 obtain c' where "dn = File c'" by (cases dn) auto
    with Some d1 show ?thesis by (simp add: checkPaths_def subdirError_def)
  qed
  have mk2: "mkdirs (butlast ?dst) fs1 = Some fs1"
    using es by (simp add: butlast_snoc2 mkdirs_existing)
  have l: "lookup (remove ?dst fs1) ?src = Some (File c)"
    using lookup_remove_other[of ?dst ?src fs1] x1 by simp
  have "\<exists>fs'. move fs1 ?src ?dst = (None, fs')"
    using x1 chk mk2 l by (simp add: move_def rename_def)
  then show ?thesis
    using x e
    by (simp add: migrate_cursorrules_def path_join_cursorrules path_join_rules
        path_join_rules_mdc pathExists_def)
qed

lemma outputDir_cursor: "outputDir cwd ''cursor'' = cwd @ [''.cursor'']"
  by (simp add: outputDir_def path_join_def push_segment_def)

lemma migrate_cursorrules_frame:
  assumes m: "migrate_cursorrules od fs = (None, fs')"
    and "\<not> prefix [''rules'', ''rules.mdc''] r" and "\<not> prefix [''.cursorrules''] r" and "r \<noteq> [''rules'']"
  shows "stat fs' (od @ r) = stat fs (od @ r)"
proof (cases "lookup fs (od @ [''.cursorrules''])")
  case None
  with m show ?thesis by (simp add: migrate_cursorrules_none)
next
  case (Some x)
  from migrate_cursorrules_ok(1)[OF m Some, of r] assms(2-4) show ?thesis by simp
qed

subsection \<open>When generateTemplate succeeds\<close>

lemma copy_succeeds:
  assumes d: "lookup fs dst = Some (Dir ds)" and s: "lookup fs src = Some (Dir ss)"
    and np: "\<not> prefix src dst" and wf: "wf_node (Dir ss)"
    and nc: "\<forall>r. \<not> clash (stat (Dir ss) r) (stat (Dir ds) r)"
  shows "\<exists>fs'. copy fs src dst = (None, fs')"
proof -
  from np have ne: "src \<noteq> dst" by auto
  have chk: "checkPaths (Dir ss) (Some (Dir ds)) src dst ''copy'' = None"
    using ne np by (simp add: checkPaths_def subdirError_def)
  have mk: "mkdirs (butlast dst) fs = Some fs" using d by (rule mkdirs_parent_existing)
  have "fst (copy_node [] (Dir ss) (Some (Dir ds))) = []"
    using wf nc by (intro copy_no_conflict(1)) simp_all
  then show ?thesis
    using d s chk mk by (auto simp: copy_def split: prod.splits)
qed

lemma generateTemplate_succeeds_if:
  assumes s: "lookup (files w) (templatePath this ai category framework) = Some (Dir ss)"
    and wfs: "wf_node (Dir ss)"
    and nf: "\<forall>q c. prefix q (outputDir cwd ai) \<longrightarrow> lookup (files w) q \<noteq> Some (File c)"
    and np: "\<not> prefix (templatePath this ai category framework) (outputDir cwd ai)"
    and nc: "\<forall>r. \<not> clash (stat (Dir ss) r) (stat (files w) (outputDir cwd ai @ r))"
    and mig: "ai = ''cursor'' \<Longrightarrow>
       (stat (Dir ss) [''.cursorrules''] = None \<and> stat (files w) (outputDir cwd ai @ [''.cursorrules'']) = None)
       \<or> (\<exists>c. (case stat (Dir ss) [''.cursorrules''] of Some e \<Rightarrow> Some e
                 | None \<Rightarrow> stat (files w) (outputDir cwd ai @ [''.cursorrules''])) = Some (IsFile c)
              \<and> (\<forall>c'. (case stat (Dir ss) [''rules''] of Some e \<Rightarrow> Some e
                 | None \<Rightarrow> stat (files w) (outputDir cwd ai @ [''rules''])) \<noteq> Some (IsFile c'))
              \<and> (case stat (Dir ss) [''rules'', ''rules.mdc''] of Some e \<Rightarrow> Some e
                 | None \<Rightarrow> stat (files w) (outputDir cwd ai @ [''rules'', ''rules.mdc''])) \<noteq> Some IsDirectory)"
  shows "\<exists>w'. succeeds this cwd ai category framework w w'"
proof -
  let ?tp = "templatePath this ai category framework" and ?od = "outputDir cwd ai"
  have "mkdirs ?od (files w) \<noteq> None" using nf by (simp add: mkdirs_None_iff)
  then obtain fs1 where mk: "mkdirs ?od (files w) = Some fs1" by auto
  then have e: "ensureDir (files w) ?od = (None, fs1)" by (simp add: ensureDir_def)
  have "stat fs1 ?od = Some IsDirectory" using mkdirs_stat[OF mk, of ?od] by simp
  then obtain ds where ds: "lookup fs1 ?od = Some (Dir ds)"
    by (auto simp: stat_eq_IsDirectory)
  have s1: "lookup fs1 ?tp = Some (Dir ss)"
    using mkdirs_lookup_frame[OF mk np] s by simp
  have st1: "\<And>r. stat (Dir ds) r = (if r = [] then Some IsDirectory else stat (files w) (?od @ r))"
  proof -
    fix r
    have "stat fs1 (?od @ r) = stat (Dir ds) r" using ds by (simp add: stat_append)
    then show "stat (Dir ds) r = (if r = [] then Some IsDirectory else stat (files w) (?od @ r))"
      using mkdirs_stat[OF mk, of "?od @ r"] by (simp add: prefix_append_self_iff)
  qed
  have nc1: "\<forall>r. \<not> clash (stat (Dir ss) r) (stat (Dir ds) r)"
  proof
    fix r show "\<not> clash (stat (Dir ss) r) (stat (Dir ds) r)"
      using nc st1[of r] by (cases "r = []") (simp_all add: stat_Nil)
  qed
  from copy_succeeds[OF ds s1 np wfs nc1] obtain fs2 where c: "copy fs1 ?tp ?od = (None, fs2)" by blast
  have st2: "\<And>r. stat fs2 (?od @ r) =
      (case stat (Dir ss) r of Some e \<Rightarrow> Some e | None \<Rightarrow> stat (files w) (?od @ r))"
    using generate_copy_stat(1)[OF e c wfs s] by simp
  have "\<exists>fs3. (if ai = ''cursor'' then migrate_cursorrules ?od fs2 else (None, fs2)) = (None, fs3)"
  proof (cases "ai = ''cursor''")
    case False
    then show ?thesis by simp
  next
    case True
    from mig[OF True] show ?thesis
    proof
      assume "stat (Dir ss) [''.cursorrules''] = None \<and> stat (files w) (?od @ [''.cursorrules'']) = None"
      then have "stat fs2 (?od @ [''.cursorrules'']) = None"
        using st2[of "[''.cursorrules'']"] by simp
      then have "lookup fs2 (?od @ [''.cursorrules'']) = None" by (simp add: stat_eq_None)
      then show ?thesis using True by (simp add: migrate_cursorrules_none)
    next
      assume "\<exists>c. (case stat (Dir ss) [''.cursorrules''] of Some e \<Rightarrow> Some e
                 | None \<Rightarrow> stat (files w) (outputDir cwd ai @ [''.cursorrules''])) = Some (IsFile c)
              \<and> (\<forall>c'. (case stat (Dir ss) [''rules''] of Some e \<Rightarrow> Some e
                 | None \<Rightarrow> stat (files w) (outputDir cwd ai @ [''rules''])) \<noteq> Some (IsFile c'))
              \<and> (case stat (Dir ss) [''rules'', ''rules.mdc''] of Some e \<Rightarrow> Some e
                 | None \<Rightarrow> stat (files w) (outputDir cwd ai @ [''rules'', ''rules.mdc''])) \<noteq> Some IsDirectory"
      then obtain c where
        a1: "stat fs2 (?od @ [''.cursorrules'']) = Some (IsFile c)"
        and a2: "\<forall>c'. stat fs2 (?od @ [''rules'']) \<noteq> Some (IsFile c')"
        and a3: "stat fs2 (?od @ [''rules'', ''rules.mdc'']) \<noteq> Some IsDirectory"
        using st2[of "[''.cursorrules'']"] st2[of "[''rules'']"] st2[of "[''rules'', ''rules.mdc'']"]
        by auto
      have "\<exists>fs'. migrate_cursorrules ?od fs2 = (None, fs')"
        using a1 a2 a3
        by (intro migrate_cursorrules_file_ok[of _ _ c])
           (auto simp: stat_eq_IsFile stat_eq_IsDirectory)
      then show ?thesis using True by simp
    qed
  qed
  then obtain fs3 where m: "(if ai = ''cursor'' then migrate_cursorrules ?od fs2 else (None, fs2)) = (None, fs3)"
    by blast
  define w' where "w' = w\<lparr>files := fs3, stdout := stdout w @ success_lines ai framework ?od\<rparr>"
  have ex: "pathExists (files w) ?tp" using s by (simp add: pathExists_def)
  have g: "generateTemplate this cwd ai category framework w = (Returned (), w')"
    using ex e c m
    by (auto simp: generateTemplate_def generateTemplate_try_def templatePath_def outputDir_def
        console_log_def success_lines_def w'_def split: if_splits)
  have "succeeds this cwd ai category framework w w'"
    using g by (simp add: succeeds_def w'_def)
  then show ?thesis by blast
qed

lemma pathExists_stat: "pathExists fs p \<longleftrightarrow> stat fs p \<noteq> None"
  by (simp add: pathExists_def stat_def)

lemma migrate_cursorrules_ok_kinds:
  assumes m: "migrate_cursorrules od fs = (None, fs')"
    and x: "lookup fs (od @ [''.cursorrules'']) = Some x"
  shows "lookup fs (od @ [''rules'']) \<noteq> Some (File c')"
    and "\<not> clash (stat fs (od @ [''.cursorrules''])) (stat fs (od @ [''rules'', ''rules.mdc'']))"
proof -
  let ?src = "od @ [''.cursorrules'']" and ?rd = "od @ [''rules'']"
    and ?dst = "od @ [''rules'', ''rules.mdc'']"
  from m x obtain fs1 where e: "ensureDir fs ?rd = (None, fs1)" and mv: "move fs1 ?src ?dst = (None, fs')"
    by (auto simp: migrate_cursorrules_def path_join_cursorrules path_join_rules
        path_join_rules_mdc pathExists_def Let_def split: prod.splits option.splits)
  from e have mk: "mkdirs ?rd fs = Some fs1" by (rule ensureDir_ok)
  then have "mkdirs ?rd fs \<noteq> None" by simp
  then have "\<not> (prefix ?rd ?rd \<and> lookup fs ?rd = Some (File c'))"
    unfolding mkdirs_None_iff by blast
  then show "lookup fs ?rd \<noteq> Some (File c')" by simp
  have x1: "lookup fs1 ?src = Some x"
    using mkdirs_lookup_frame[OF mk, of ?src] x by simp
  have d1: "lookup fs1 ?dst = lookup fs ?dst"
    using mkdirs_lookup_frame[OF mk, of ?dst] by simp
  from mv x1 have chk: "checkPaths x (lookup fs ?dst) ?src ?dst ''move'' = None"
    by (auto simp: move_def d1 split: option.splits)
  show "\<not> clash (stat fs ?src) (stat fs ?dst)"
  proof (cases "lookup fs ?dst")
    case None
    then show ?thesis by (simp add: stat_def)
  next
    case (Some dn)
    with chk have "is_dir x = is_dir dn"
      by (auto simp: checkPaths_def split: if_splits)
    then show ?thesis using x Some
      by (cases x; cases dn) (simp_all add: stat_def clash_def)
  qed
qed

lemma stat_below_None: "stat n p = None \<Longrightarrow> stat n (p @ q) = None"
  by (simp add: stat_def lookup_append split: option.splits)

lemma stat_above_dir:
  assumes "stat n (p @ q) \<noteq> None" and "q \<noteq> []"
  shows "stat n p = Some IsDirectory"
proof -
  from assms(1) obtain m where "lookup n (p @ q) = Some m" by (auto simp: stat_def)
  from lookup_prefix_dir[OF this assms(2)] show ?thesis by (simp add: stat_eq_IsDirectory)
qed

text \<open>The state after a successful run, outside the destination.\<close>

lemma succeeds_outside:
  assumes su: "succeeds this cwd ai category framework w w'"
    and s: "lookup (files w) (templatePath this ai category framework) = Some s"
    and wfs: "wf_node s"
    and nq: "\<not> prefix (outputDir cwd ai) q"
  shows "stat (files w') q = (if prefix q (outputDir cwd ai) then Some IsDirectory else stat (files w) q)"
proof -
  let ?od = "outputDir cwd ai"
  from succeeds_stat_template[OF su s wfs] obtain fs2 where
    out: "\<And>q. \<not> prefix ?od q \<Longrightarrow> stat fs2 q = (if prefix q ?od then Some IsDirectory else stat (files w) q)"
    and m: "(if ai = ''cursor'' then migrate_cursorrules ?od fs2 else (None, fs2)) = (None, files w')"
    by auto
  have "stat (files w') q = stat fs2 q"
  proof (cases "ai = ''cursor''")
    case False
    with m show ?thesis by simp
  next
    case True
    with m have mc: "migrate_cursorrules ?od fs2 = (None, files w')" by simp
    show ?thesis
    proof (cases "lookup fs2 (?od @ [''.cursorrules''])")
      case None
      with mc show ?thesis by (simp add: migrate_cursorrules_none)
    next
      case (Some x)
      from migrate_cursorrules_ok(2)[OF mc Some nq] show ?thesis .
    qed
  qed
  with out[OF nq] show ?thesis by simp
qed

text \<open>The destination is a directory after a successful run.\<close>

lemma succeeds_destination_dir:
  assumes su: "succeeds this cwd ai category framework w w'"
    and s: "lookup (files w) (templatePath this ai category framework) = Some s"
    and wfs: "wf_node s"
  shows "stat (files w') (outputDir cwd ai) = Some IsDirectory"
proof -
  let ?od = "outputDir cwd ai"
  from succeeds_stat_template[OF su s wfs] obtain fs2 where
    d: "is_dir s"
    and st: "\<And>r. stat fs2 (?od @ r) =
           (case stat s r of Some e \<Rightarrow> Some e | None \<Rightarrow> stat (files w) (?od @ r))"
    and m: "(if ai = ''cursor'' then migrate_cursorrules ?od fs2 else (None, fs2)) = (None, files w')"
    by auto
  from d have "stat s [] = Some IsDirectory" by (cases s) (simp_all add: stat_Nil)
  then have f2: "stat fs2 (?od @ []) = Some IsDirectory" using st[of "[]"] by simp
  have "stat (files w') (?od @ []) = stat fs2 (?od @ [])"
  proof (cases "ai = ''cursor''")
    case False
    with m show ?thesis by simp
  next
    case True
    with m have mc: "migrate_cursorrules ?od fs2 = (None, files w')" by simp
    show ?thesis by (rule migrate_cursorrules_frame[OF mc]) simp_all
  qed
  with f2 show ?thesis by simp
qed

lemma clash_with_dir: "clash a (Some IsDirectory) \<longleftrightarrow> (\<exists>c. a = Some (IsFile c))"
proof (cases a)
  case None
  then show ?thesis by simp
next
  case (Some e)
  then show ?thesis by (cases e) (simp_all add: clash_def)
qed

lemma clash_with_file: "clash a (Some (IsFile c)) \<longleftrightarrow> a = Some IsDirectory"
  by (auto simp: clash_def)

subsection \<open>Runs in which a step fails\<close>

lemma ensureDir_blocked:
  "lookup fs p = Some (File c) \<Longrightarrow>
   ensureDir fs p = (Some (Error False (''EEXIST: file already exists, mkdir '' @ quoted p)), fs)"
proof -
  assume f: "lookup fs p = Some (File c)"
  then have "prefix p p \<and> lookup fs p = Some (File c)" by simp
  then have "mkdirs p fs = None" unfolding mkdirs_None_iff by blast
  with f show ?thesis by (simp add: ensureDir_def pathExists_def)
qed

lemma migrate_cursorrules_rules_is_file:
  assumes x: "lookup fs (od @ [''.cursorrules'']) = Some (File c)"
    and f: "lookup fs (od @ [''rules'']) = Some (File c')"
  shows "migrate_cursorrules od fs
            = (Some (Error False (''EEXIST: file already exists, mkdir '' @ quoted (od @ [''rules'']))), fs)"
proof -
  have p: "pathExists fs (od @ [''.cursorrules''])" using x by (simp add: pathExists_def)
  show ?thesis
    unfolding migrate_cursorrules_def Let_def path_join_cursorrules path_join_rules
    by (simp only: p if_True ensureDir_blocked[OF f] prod.case option.case)
qed

lemma migrate_cursorrules_target_is_dir:
  assumes x: "lookup fs (od @ [''.cursorrules'']) = Some (File c)"
    and d: "lookup fs (od @ [''rules'', ''rules.mdc'']) = Some (Dir es)"
  shows "migrate_cursorrules od fs
           = (Some (Error False (''Cannot overwrite directory '' @ quoted (od @ [''rules'', ''rules.mdc''])
                             @ '' with non-directory '' @ quoted (od @ [''.cursorrules'']) @ ''.'')), fs)"
proof -
  let ?src = "od @ [''.cursorrules'']" and ?rd = "od @ [''rules'']"
    and ?dst = "od @ [''rules'', ''rules.mdc'']"
  obtain rs where rs: "lookup fs ?rd = Some (Dir rs)"
    using d lookup_parent_dir[of fs ?rd "''rules.mdc''" "Dir es"] by auto
  then have mk: "mkdirs ?rd fs = Some fs" by (rule mkdirs_existing)
  then have e: "ensureDir fs ?rd = (None, fs)" by (simp add: ensureDir_def)
  have ne: "?src \<noteq> ?dst" by simp
  have mv: "move fs ?src ?dst
           = (Some (Error False (''Cannot overwrite directory '' @ quoted ?dst
                             @ '' with non-directory '' @ quoted ?src @ ''.'')), fs)"
    using x d ne by (simp add: move_def checkPaths_def)
  have p: "pathExists fs (od @ [''.cursorrules''])" using x by (simp add: pathExists_def)
  have j: "(od @ [''rules'']) @ [''rules.mdc''] = od @ [''rules'', ''rules.mdc'']" by simp
  show ?thesis
    unfolding migrate_cursorrules_def Let_def path_join_cursorrules path_join_rules
      path_join_rules_mdc
    by (simp only: p if_True e prod.case option.case j mv)
qed

lemma copy_absent:
  shows "wf_node s \<Longrightarrow> stat s q = None \<Longrightarrow>
         stat (snd (copy_node rp s d)) q = (case d of None \<Rightarrow> None | Some n \<Rightarrow> stat n q)"
    and "distinct (map fst ss) \<Longrightarrow> list_all (\<lambda>e. wf_node (snd e)) ss \<Longrightarrow>
         stat (Dir ss) q = None \<Longrightarrow>
         stat (Dir (snd (copy_entries rp ss ds))) q = stat (Dir ds) q"
proof (induction rp s d and rp ss ds arbitrary: q and q rule: copy_node_copy_entries.induct)
  case (1 rp c)
  then show ?case by simp
next
  case (2 rp c c')
  then show ?case by (cases q) (simp_all add: stat_Nil stat_File_Cons)
next
  case (3 rp c ds)
  then show ?case by simp
next
  case (4 rp ss)
  obtain cs ds' where ce: "copy_entries rp ss [] = (cs, ds')"
    by (cases "copy_entries rp ss []")
  have "stat (Dir ds') q = stat (Dir []) q"
    using "4.IH"[of q] "4.prems" ce by simp
  then show ?case
    using ce "4.prems" by (cases q) (simp_all add: stat_Nil stat_Dir_empty)
next
  case (5 rp ss c')
  then show ?case by simp
next
  case (6 rp ss ds)
  obtain cs ds' where ce: "copy_entries rp ss ds = (cs, ds')"
    by (cases "copy_entries rp ss ds")
  have "stat (Dir ds') q = stat (Dir ds) q"
    using "6.IH"[of q] "6.prems" ce by simp
  then show ?case using ce by simp
next
  case (7 rp ds)
  then show ?case by simp
next
  case (8 rp k s ss ds)
  obtain c1 n where cn: "copy_node (rp @ [k]) s (map_of ds k) = (c1, n)"
    by (cases "copy_node (rp @ [k]) s (map_of ds k)")
  obtain c2 ds' where ce: "copy_entries rp ss (AList.update k n ds) = (c2, ds')"
    by (cases "copy_entries rp ss (AList.update k n ds)")
  from "8.prems" have k: "k \<notin> fst ` set ss" and dist: "distinct (map fst ss)"
    and wfs: "wf_node s" and wfss: "list_all (\<lambda>e. wf_node (snd e)) ss"
    by auto
  have nostat: "map_of ss k = None" using k by (simp add: map_of_eq_None_iff)
  from "8.prems"(3) obtain x xs where q: "q = x # xs" by (cases q) (simp_all add: stat_Nil)
  show ?case
  proof (cases "x = k")
    case True
    from "8.prems"(3) q True have sn: "stat s xs = None" by (simp add: stat_Dir_Cons)
    have ih1: "stat n xs = (case map_of ds k of None \<Rightarrow> None | Some m \<Rightarrow> stat m xs)"
      using "8.IH"(1)[OF wfs sn] cn by simp
    have "stat (Dir ss) q = None" using q True nostat by (simp add: stat_Dir_Cons)
    then have ih2: "stat (Dir ds') q = stat (Dir (AList.update k n ds)) q"
      using "8.IH"(2)[OF cn[symmetric] dist wfss] ce by simp
    show ?thesis
      using cn ce q True ih1 ih2
      by (simp add: stat_Dir_Cons update_conv' split: option.splits)
  next
    case False
    from "8.prems"(3) q False have "stat (Dir ss) q = None" by (simp add: stat_Dir_Cons)
    then have ih2: "stat (Dir ds') q = stat (Dir (AList.update k n ds)) q"
      using "8.IH"(2)[OF cn[symmetric] dist wfss] ce by simp
    show ?thesis
      using cn ce q False ih2
      by (simp add: stat_Dir_Cons update_conv' split: option.splits)
  qed
qed

lemma copy_any:
  assumes c: "copy fs src dst = (err, fs')" and d: "lookup fs dst = Some (Dir ds)"
  shows "fs' = fs \<or>
         (\<exists>ss. lookup fs src = Some (Dir ss) \<and> \<not> prefix src dst \<and>
               fs' = put_at dst (snd (copy_node [] (Dir ss) (Some (Dir ds)))) fs)"
proof (cases "lookup fs src")
  case None
  with c show ?thesis by (simp add: copy_def)
next
  case (Some s)
  show ?thesis
  proof (cases "checkPaths s (Some (Dir ds)) src dst ''copy''")
    case (Some e)
    with c d \<open>lookup fs src = Some s\<close> show ?thesis by (simp add: copy_def)
  next
    case None
    then have dir: "is_dir s" and np: "\<not> prefix src dst"
      by (auto simp: checkPaths_def subdirError_def split: if_splits)
    from dir obtain ss where ss: "s = Dir ss" by (cases s) simp_all
    have mk: "mkdirs (butlast dst) fs = Some fs" using d by (rule mkdirs_parent_existing)
    from c d \<open>lookup fs src = Some s\<close> None mk ss np show ?thesis
      by (auto simp: copy_def split: prod.splits)
  qed
qed

lemma generateTemplate_files:
  assumes ai: "ai \<noteq> ''cursor''"
    and ex: "pathExists (files w) (path_join (templatesDir this) [ai, category, framework])"
    and e: "ensureDir (files w) (path_join cwd [''.'' @ ai]) = (None, fs1)"
    and c: "copy fs1 (path_join (templatesDir this) [ai, category, framework]) (path_join cwd [''.'' @ ai]) = (err, fs2)"
  shows "fst (generateTemplate this cwd ai category framework w) = Returned ()"
    and "files (snd (generateTemplate this cwd ai category framework w)) = fs2"
  using assms
  by (auto simp: generateTemplate_def generateTemplate_try_def console_log_def Let_def
      split: option.splits)

lemma generateTemplate_absent_path:
  assumes wf: "wf_node (files w)"
    and n: "lookup (files w) (path_join (templatesDir this) [ai, category, framework] @ r) = None"
    and ai: "ai \<noteq> ''cursor''" and r: "r \<noteq> []"
  shows "stat (files (snd (generateTemplate this cwd ai category framework w))) (path_join cwd [''.'' @ ai] @ r)
         = stat (files w) (path_join cwd [''.'' @ ai] @ r)"
proof -
  let ?tp = "path_join (templatesDir this) [ai, category, framework]"
  let ?od = "path_join cwd [''.'' @ ai]"
  show ?thesis
  proof (cases "pathExists (files w) ?tp")
    case False
    then show ?thesis by (simp add: generateTemplate_def console_log_def)
  next
    case True
    obtain e1 fs1 where e: "ensureDir (files w) ?od = (e1, fs1)"
      by (cases "ensureDir (files w) ?od")
    show ?thesis
    proof (cases e1)
      case (Some e')
      with e have "fs1 = files w" by (auto simp: ensureDir_def split: option.splits)
      with True e Some show ?thesis by (simp add: generateTemplate_def)
    next
      case None
      with e have e': "ensureDir (files w) ?od = (None, fs1)" by simp
      then have mk: "mkdirs ?od (files w) = Some fs1" by (rule ensureDir_ok)
      have od1: "stat fs1 ?od = Some IsDirectory" using mkdirs_stat[OF mk, of ?od] by simp
      then obtain ds where ds: "lookup fs1 ?od = Some (Dir ds)"
        by (auto simp: stat_eq_IsDirectory)
      have fr: "stat fs1 (?od @ r) = stat (files w) (?od @ r)"
        using mkdirs_stat[OF mk, of "?od @ r"] r by (simp add: prefix_append_self_iff)
      obtain err fs2 where c: "copy fs1 ?tp ?od = (err, fs2)"
        by (cases "copy fs1 ?tp ?od")
      have fin: "files (snd (generateTemplate this cwd ai category framework w)) = fs2"
        using ai True e' c by (rule generateTemplate_files(2))
      have "stat fs2 (?od @ r) = stat fs1 (?od @ r)"
        using copy_any[OF c ds]
      proof
        assume "fs2 = fs1" then show ?thesis by simp
      next
        assume "\<exists>ss. lookup fs1 ?tp = Some (Dir ss) \<and> \<not> prefix ?tp ?od \<and>
               fs2 = put_at ?od (snd (copy_node [] (Dir ss) (Some (Dir ds)))) fs1"
        then obtain ss where ss: "lookup fs1 ?tp = Some (Dir ss)" and np: "\<not> prefix ?tp ?od"
          and fs2: "fs2 = put_at ?od (snd (copy_node [] (Dir ss) (Some (Dir ds)))) fs1"
          by blast
        have same: "lookup fs1 ?tp = lookup (files w) ?tp" using mk np by (rule mkdirs_lookup_frame)
        with ss have s0: "lookup (files w) ?tp = Some (Dir ss)" by simp
        have wfs: "wf_node (Dir ss)" using wf s0 by (rule wf_node_lookup)
        have sn: "stat (Dir ss) r = None" using n s0 by (simp add: stat_def lookup_append)
        have par: "?od = [] \<or> (\<exists>es. lookup fs1 (butlast ?od) = Some (Dir es))"
        proof (cases ?od rule: rev_cases)
          case Nil
          then show ?thesis by simp
        next
          case (snoc p x)
          with ds show ?thesis by (auto dest: lookup_parent_dir)
        qed
        have st: "\<And>q n. stat (put_at ?od n fs1) q = (if prefix ?od q then stat n (drop (length ?od) q) else stat fs1 q)"
          using par by (rule stat_put_at)
        have "stat (snd (copy_node [] (Dir ss) (Some (Dir ds)))) r = stat (Dir ds) r"
          using copy_absent(1)[OF wfs sn, of "[]" "Some (Dir ds)"] by (simp del: copy_node.simps)
        moreover have "stat fs1 (?od @ r) = stat (Dir ds) r" using ds by (simp add: stat_append)
        ultimately show ?thesis using st fs2 by (simp del: copy_node.simps)
      qed
      with fr fin show ?thesis by simp
    qed
  qed
qed

subsection \<open>Evaluating concrete runs\<close>

lemmas eval_defs =
  generateTemplate_def generateTemplate_try_def migrate_cursorrules_def copy_def move_def rename_def
  ensureDir_def checkPaths_def subdirError_def pathExists_def path_join_def push_segment_def
  console_log_def new_TemplateGenerator_def joined_string_def trailing_slash_def Let_def

lemmas run_defs =
  succeeds_def success_lines_def templatePath_def outputDir_def eval_defs install_def
  example_generator_def example_cwd_def


section \<open>The claims\<close>

subsection \<open>C1: the template is copied into the destination\<close>

text \<open>
  C1, counterexample.  The claim fails in two ways, both for triples of the option tables whose template
  directory exists.  For (claude, frontend, react) in a project where \<open>.claude\<close> is a
  regular file, \<open>ensureDir\<close> throws before the \<open>try\<close> block is entered and
  \<open>generateTemplate\<close> itself throws: it does not terminate successfully.  For (cursor,
  backend, fastify) with a template that holds a \<open>.cursorrules\<close> file the run succeeds, but
  the migration has moved the file away, so \<open>.cursor/.cursorrules\<close> does not exist.
\<close>

theorem generateTemplate_copies_template_fails:
  "offered ''claude'' ''frontend'' ''react''
   \<and> lookup (files (install [] [(''project_knowledge.md'', File ''react notes'')]
                       [(''.claude'', File ''not a directory'')]))
        (templatePath example_generator ''claude'' ''frontend'' ''react'')
      = Some (Dir [(''project_knowledge.md'', File ''react notes'')])
   \<and> generateTemplate example_generator example_cwd ''claude'' ''frontend'' ''react''
        (install [] [(''project_knowledge.md'', File ''react notes'')]
           [(''.claude'', File ''not a directory'')])
      = (Threw (Error False (''EEXIST: file already exists, mkdir '' @ [CHR 0x27]
                             @ ''/home/project/.claude'' @ [CHR 0x27])),
         install [] [(''project_knowledge.md'', File ''react notes'')]
           [(''.claude'', File ''not a directory'')])
   \<and> offered ''cursor'' ''backend'' ''fastify''
   \<and> lookup (files (install [(''.cursorrules'', File ''legacy rules'')] [] []))
        (templatePath example_generator ''cursor'' ''backend'' ''fastify'' @ [''.cursorrules''])
      = Some (File ''legacy rules'')
   \<and> succeeds example_generator example_cwd ''cursor'' ''backend'' ''fastify''
        (install [(''.cursorrules'', File ''legacy rules'')] [] [])
        (snd (generateTemplate example_generator example_cwd ''cursor'' ''backend'' ''fastify''
                (install [(''.cursorrules'', File ''legacy rules'')] [] [])))
   \<and> lookup (files (snd (generateTemplate example_generator example_cwd ''cursor'' ''backend'' ''fastify''
                (install [(''.cursorrules'', File ''legacy rules'')] [] []))))
        (outputDir example_cwd ''cursor'' @ [''.cursorrules'']) = None"
  by (simp add: run_defs offered_def AI_OPTIONS_def CATEGORY_OPTIONS_def FRAMEWORK_OPTIONS_def quoted_def path_string_def)

text \<open>
  C1, as amended.  Let the template directory of a triple exist (in a file system whose
  directories list each name once).

  \<^item> \<open>generateTemplate\<close> succeeds whenever no component of the destination path \<open>.ai\<close>
    is a regular file, the destination does not lie inside the template directory, no
    entry of the template meets an entry of the other kind (file against directory) at
    the same relative path of the destination, and, for \<open>cursor\<close>, neither the template
    nor the destination has a top-level \<open>.cursorrules\<close>.

  \<^item> Whenever \<open>generateTemplate\<close> succeeds, every file of the template is in the
    destination at the same relative path with the same bytes, except, for \<open>cursor\<close> when
    the template or the destination had a top-level \<open>.cursorrules\<close>, the paths at or
    below \<open>.cursorrules\<close> and \<open>rules/rules.mdc\<close>, which the migration rewrites.

  \<^item> Whenever \<open>generateTemplate\<close> succeeds, a relative path at which the template has
    nothing holds in the destination what it held before (the same file, the same
    directory, or nothing), with the same exception and, there, that of \<open>rules\<close>, which
    the migration creates.

  The theorem holds for every triple, in particular for those of the option tables.
\<close>

theorem generateTemplate_copies_template:
  assumes wf: "wf_node (files w)"
    and tdir: "lookup (files w) (templatePath this ai category framework) = Some (Dir ss)"
  shows "((\<forall>q c. prefix q (outputDir cwd ai) \<longrightarrow> lookup (files w) q \<noteq> Some (File c))
          \<and> \<not> prefix (templatePath this ai category framework) (outputDir cwd ai)
          \<and> (\<forall>r. \<not> clash (stat (files w) (templatePath this ai category framework @ r))
                           (stat (files w) (outputDir cwd ai @ r)))
          \<and> (ai = ''cursor'' \<longrightarrow>
                lookup (files w) (templatePath this ai category framework @ [''.cursorrules'']) = None
                \<and> lookup (files w) (outputDir cwd ai @ [''.cursorrules'']) = None)
          \<longrightarrow> (\<exists>w'. succeeds this cwd ai category framework w w'))
       \<and> (\<forall>w' r c.
             succeeds this cwd ai category framework w w'
             \<and> lookup (files w) (templatePath this ai category framework @ r) = Some (File c)
             \<and> \<not> (ai = ''cursor''
                   \<and> (pathExists (files w) (templatePath this ai category framework @ [''.cursorrules''])
                        \<or> pathExists (files w) (outputDir cwd ai @ [''.cursorrules'']))
                   \<and> (prefix [''.cursorrules''] r \<or> prefix [''rules'', ''rules.mdc''] r))
             \<longrightarrow> lookup (files w') (outputDir cwd ai @ r) = Some (File c))
       \<and> (\<forall>w' r.
             succeeds this cwd ai category framework w w'
             \<and> lookup (files w) (templatePath this ai category framework @ r) = None
             \<and> \<not> (ai = ''cursor''
                   \<and> (pathExists (files w) (templatePath this ai category framework @ [''.cursorrules''])
                        \<or> pathExists (files w) (outputDir cwd ai @ [''.cursorrules'']))
                   \<and> (prefix [''.cursorrules''] r \<or> prefix [''rules'', ''rules.mdc''] r \<or> r = [''rules'']))
             \<longrightarrow> stat (files w') (outputDir cwd ai @ r) = stat (files w) (outputDir cwd ai @ r))"
proof -
  let ?tp = "templatePath this ai category framework" and ?od = "outputDir cwd ai"
  let ?cr = "[''.cursorrules'']" and ?rm = "[''rules'', ''rules.mdc'']"
  let ?migrated = "ai = ''cursor'' \<and> (pathExists (files w) (?tp @ ?cr) \<or> pathExists (files w) (?od @ ?cr))"
  have wfs: "wf_node (Dir ss)" using wf tdir by (rule wf_node_lookup)
  have ts: "\<And>r. stat (files w) (?tp @ r) = stat (Dir ss) r"
    using tdir by (simp add: stat_append)
  have part1: "\<exists>w'. succeeds this cwd ai category framework w w'"
    if pre: "(\<forall>q c. prefix q ?od \<longrightarrow> lookup (files w) q \<noteq> Some (File c))
          \<and> \<not> prefix ?tp ?od
          \<and> (\<forall>r. \<not> clash (stat (files w) (?tp @ r)) (stat (files w) (?od @ r)))
          \<and> (ai = ''cursor'' \<longrightarrow>
                lookup (files w) (?tp @ ?cr) = None \<and> lookup (files w) (?od @ ?cr) = None)"
  proof (rule generateTemplate_succeeds_if[OF tdir wfs])
    show "\<forall>q c. prefix q ?od \<longrightarrow> lookup (files w) q \<noteq> Some (File c)" using pre by blast
    show "\<not> prefix ?tp ?od" using pre by blast
    show "\<forall>r. \<not> clash (stat (Dir ss) r) (stat (files w) (?od @ r))" using pre ts by simp
    assume "ai = ''cursor''"
    with pre have "stat (files w) (?tp @ ?cr) = None" and "stat (files w) (?od @ ?cr) = None"
      by (simp_all add: stat_eq_None)
    then show "(stat (Dir ss) ?cr = None \<and> stat (files w) (?od @ ?cr) = None)
       \<or> (\<exists>c. (case stat (Dir ss) ?cr of Some e \<Rightarrow> Some e
                 | None \<Rightarrow> stat (files w) (?od @ ?cr)) = Some (IsFile c)
              \<and> (\<forall>c'. (case stat (Dir ss) [''rules''] of Some e \<Rightarrow> Some e
                 | None \<Rightarrow> stat (files w) (?od @ [''rules''])) \<noteq> Some (IsFile c'))
              \<and> (case stat (Dir ss) ?rm of Some e \<Rightarrow> Some e
                 | None \<Rightarrow> stat (files w) (?od @ ?rm)) \<noteq> Some IsDirectory)"
      using ts[of ?cr] by simp
  qed
  have laid: "stat (files w') (?od @ r) =
                (case stat (Dir ss) r of Some e \<Rightarrow> Some e | None \<Rightarrow> stat (files w) (?od @ r))"
    if su: "succeeds this cwd ai category framework w w'"
      and ex: "\<not> (?migrated \<and> (prefix ?cr r \<or> prefix ?rm r))"
      and ru: "r = [''rules''] \<Longrightarrow> ?migrated \<Longrightarrow>
                 (case stat (Dir ss) r of Some e \<Rightarrow> Some e | None \<Rightarrow> stat (files w) (?od @ r)) \<noteq> None"
    for w' r
  proof -
    from succeeds_stat_template[OF su tdir wfs] obtain fs2 where
      st: "\<And>r. stat fs2 (?od @ r) =
             (case stat (Dir ss) r of Some e \<Rightarrow> Some e | None \<Rightarrow> stat (files w) (?od @ r))"
      and m: "(if ai = ''cursor'' then migrate_cursorrules ?od fs2 else (None, fs2)) = (None, files w')"
      by auto
    have "stat (files w') (?od @ r) = stat fs2 (?od @ r)"
    proof (cases "ai = ''cursor''")
      case False
      with m show ?thesis by simp
    next
      case True
      with m have mc: "migrate_cursorrules ?od fs2 = (None, files w')" by simp
      show ?thesis
      proof (cases "lookup fs2 (?od @ ?cr)")
        case None
        with mc show ?thesis by (simp add: migrate_cursorrules_none)
      next
        case (Some x)
        then have "stat fs2 (?od @ ?cr) \<noteq> None" by (simp add: stat_def)
        then have "stat (Dir ss) ?cr \<noteq> None \<or> stat (files w) (?od @ ?cr) \<noteq> None"
          using st[of ?cr] by (auto split: option.splits)
        then have "stat (files w) (?tp @ ?cr) \<noteq> None \<or> stat (files w) (?od @ ?cr) \<noteq> None"
          by (simp only: ts)
        then have mg: "?migrated" using True by (simp only: pathExists_stat)
        with ex have np: "\<not> prefix ?cr r" "\<not> prefix ?rm r" by blast+
        show ?thesis
        proof (cases "r = [''rules'']")
          case False
          with migrate_cursorrules_frame[OF mc np(2) np(1)] show ?thesis by simp
        next
          case True
          from ru[OF True mg] have "stat fs2 (?od @ [''rules'']) \<noteq> None" using st[of r] True by simp
          moreover have "\<And>c'. stat fs2 (?od @ [''rules'']) \<noteq> Some (IsFile c')"
            using migrate_cursorrules_ok_kinds(1)[OF mc Some] by (simp add: stat_eq_IsFile)
          ultimately have "stat fs2 (?od @ [''rules'']) = Some IsDirectory"
            by (cases "stat fs2 (?od @ [''rules''])") (auto intro: entry.exhaust)
          moreover have "stat (files w') (?od @ [''rules'']) = Some IsDirectory"
            using migrate_cursorrules_ok(1)[OF mc Some, of "[''rules'']"] by simp
          ultimately show ?thesis using True by simp
        qed
      qed
    qed
    with st[of r] show ?thesis by simp
  qed
  have part2: "lookup (files w') (?od @ r) = Some (File c)"
    if a: "succeeds this cwd ai category framework w w'
             \<and> lookup (files w) (?tp @ r) = Some (File c)
             \<and> \<not> (?migrated \<and> (prefix ?cr r \<or> prefix ?rm r))"
    for w' r c
  proof -
    from a have "stat (files w) (?tp @ r) = Some (IsFile c)" by (simp add: stat_eq_IsFile)
    then have f: "stat (Dir ss) r = Some (IsFile c)" using ts[of r] by simp
    have "stat (files w') (?od @ r) =
            (case stat (Dir ss) r of Some e \<Rightarrow> Some e | None \<Rightarrow> stat (files w) (?od @ r))"
      using a f by (intro laid) simp_all
    with f have "stat (files w') (?od @ r) = Some (IsFile c)" by simp
    then show ?thesis by (simp add: stat_eq_IsFile)
  qed
  have part3: "stat (files w') (?od @ r) = stat (files w) (?od @ r)"
    if a: "succeeds this cwd ai category framework w w'
             \<and> lookup (files w) (?tp @ r) = None
             \<and> \<not> (?migrated \<and> (prefix ?cr r \<or> prefix ?rm r \<or> r = [''rules'']))"
    for w' r
  proof -
    from a have "stat (files w) (?tp @ r) = None" by (simp add: stat_eq_None)
    then have f: "stat (Dir ss) r = None" using ts[of r] by simp
    have "stat (files w') (?od @ r) =
            (case stat (Dir ss) r of Some e \<Rightarrow> Some e | None \<Rightarrow> stat (files w) (?od @ r))"
      using a by (intro laid) blast+
    with f show ?thesis by simp
  qed
  from part1 part2 part3 show ?thesis by blast
qed

text \<open>The run for (claude, frontend, react) in the example installation.\<close>

theorem generateTemplate_copies_template_witness:
  "offered ''claude'' ''frontend'' ''react''
   \<and> wf_node (files example_world)
   \<and> lookup (files example_world) (templatePath example_generator ''claude'' ''frontend'' ''react'')
        = Some (Dir [(''project_knowledge.md'', File ''react notes'')])
   \<and> (\<exists>w'. succeeds example_generator example_cwd ''claude'' ''frontend'' ''react'' example_world w'
          \<and> lookup (files w') (example_cwd @ [''.claude'', ''project_knowledge.md'']) = Some (File ''react notes''))"
proof -
  let ?tp = "templatePath example_generator ''claude'' ''frontend'' ''react''"
  let ?od = "outputDir example_cwd ''claude''"
  have o: "offered ''claude'' ''frontend'' ''react''" by (simp add: offered_def AI_OPTIONS_def CATEGORY_OPTIONS_def FRAMEWORK_OPTIONS_def)
  have h1: "wf_node (files example_world)" by (simp add: example_world_def example_disk_def)
  have h2: "lookup (files example_world) ?tp = Some (Dir [(''project_knowledge.md'', File ''react notes'')])"
    by (simp add: run_defs example_world_def example_disk_def)
  have od: "?od = [''home'', ''project'', ''.claude'']" by (simp add: run_defs)
  have p1: "\<forall>q c. prefix q ?od \<longrightarrow> lookup (files example_world) q \<noteq> Some (File c)"
    unfolding od by (auto simp: prefix_Cons example_world_def example_disk_def)
  have p2: "\<not> prefix ?tp ?od" by (simp add: run_defs)
  have p3: "\<forall>r. \<not> clash (stat (files example_world) (?tp @ r)) (stat (files example_world) (?od @ r))"
    unfolding od by (simp add: example_world_def example_disk_def stat_def)
  have p4: "''claude'' = ''cursor'' \<longrightarrow>
                lookup (files example_world) (?tp @ [''.cursorrules'']) = None
                \<and> lookup (files example_world) (?od @ [''.cursorrules'']) = None"
    by simp
  have f: "lookup (files example_world) (?tp @ [''project_knowledge.md'']) = Some (File ''react notes'')"
    using h2 by (simp add: lookup_append)
  note t = generateTemplate_copies_template [OF h1 h2, of example_cwd]
  from t p1 p2 p3 p4 obtain w' where
    su: "succeeds example_generator example_cwd ''claude'' ''frontend'' ''react'' example_world w'"
    by blast
  from t su f have "lookup (files w') (?od @ [''project_knowledge.md'']) = Some (File ''react notes'')"
    by simp
  moreover have "?od @ [''project_knowledge.md''] = example_cwd @ [''.claude'', ''project_knowledge.md'']"
    by (simp add: run_defs)
  ultimately have "lookup (files w') (example_cwd @ [''.claude'', ''project_knowledge.md'']) = Some (File ''react notes'')"
    by (simp only:)
  with o h1 h2 su show ?thesis by blast
qed


subsection \<open>C2: a missing template\<close>

text \<open>
  C2, counterexample.  The guard of \<open>generateTemplate\<close> is \<open>pathExists\<close>, which is true
  of a regular file as well.  Here \<open>templates/cursor/backend/fastify\<close> is a regular file,
  so the template directory does not exist; nevertheless the guard is passed,
  \<open>ensureDir\<close> creates \<open>/home/project/.cursor\<close>, which was not there, the copy refuses
  to put a file over that directory, and the line printed is the one for a copy error,
  not "Template not found".
\<close>

theorem generateTemplate_template_is_a_file:
  "lookup (files template_file_world)
       (templatePath example_generator ''cursor'' ''backend'' ''fastify'') = Some (File ''fastify rules'')
   \<and> lookup (files template_file_world) (outputDir example_cwd ''cursor'') = None
   \<and> fst (generateTemplate example_generator example_cwd ''cursor'' ''backend'' ''fastify''
             template_file_world) = Returned ()
   \<and> lookup (files (snd (generateTemplate example_generator example_cwd ''cursor'' ''backend'' ''fastify''
             template_file_world)))
        (outputDir example_cwd ''cursor'') = Some (Dir [])
   \<and> stdout (snd (generateTemplate example_generator example_cwd ''cursor'' ''backend'' ''fastify''
             template_file_world))
      = [(Red, cross_mark @ '' Error generating template: Cannot overwrite directory ''
               @ [CHR 0x27] @ ''/home/project/.cursor'' @ [CHR 0x27] @ '' with non-directory ''
               @ [CHR 0x27] @ ''/pkg/templates/cursor/backend/fastify'' @ [CHR 0x27] @ ''.'')]"
  by (simp add: run_defs template_file_world_def quoted_def path_string_def)

text \<open>
  C2, as amended.  When nothing exists at the resolved template path
  \<open>templatesDir/ai/category/framework\<close>, neither a directory nor a file,
  \<open>generateTemplate\<close> prints the red line "Template not found for ai/category/framework"
  and returns; nothing else of the state changes.  In particular the file system afterwards
  is the file system before, so no \<open>.ai\<close> directory has been created and no file written.
\<close>

theorem generateTemplate_template_not_found:
  assumes "\<not> pathExists (files w) (path_join (templatesDir this) [ai, category, framework])"
  shows "generateTemplate this cwd ai category framework w =
           (Returned (),
            w\<lparr>stdout := stdout w @
               [(Red, cross_mark @ '' Template not found for '' @ ai @ ''/'' @ category @ ''/'' @ framework)]\<rparr>)
         \<and> files (snd (generateTemplate this cwd ai category framework w)) = files w"
  using assms by (simp add: generateTemplate_def console_log_def)

text \<open>The run for (gemini, backend, express), which the example installation lacks.\<close>

theorem generateTemplate_template_not_found_witness:
  "\<not> pathExists (files example_world)
        (path_join (templatesDir example_generator) [''gemini'', ''backend'', ''express''])
   \<and> generateTemplate example_generator example_cwd ''gemini'' ''backend'' ''express'' example_world =
       (Returned (),
        example_world\<lparr>stdout :=
           [(Red, cross_mark @ '' Template not found for gemini/backend/express'')]\<rparr>)
   \<and> lookup (files (snd (generateTemplate example_generator example_cwd ''gemini'' ''backend'' ''express'' example_world)))
         (example_cwd @ [''.gemini'']) = None"
proof -
  have h: "\<not> pathExists (files example_world)
        (path_join (templatesDir example_generator) [''gemini'', ''backend'', ''express''])"
    by (simp add: example_templatesDir example_world_def example_disk_def pathExists_def
        path_join_def push_segment_def)
  show ?thesis
    using h generateTemplate_template_not_found [OF h, of example_cwd]
    by (simp add: example_world_def example_disk_def example_cwd_def)
qed


subsection \<open>C3: the legacy migration\<close>

text \<open>
  C3, counterexample.  The claim fails when the migration itself cannot be done.  Here the template holds a
  \<open>.cursorrules\<close> file and the project already has a regular file \<open>.cursor/rules\<close>: the
  copy succeeds and leaves \<open>.cursor/.cursorrules\<close>, \<open>ensureDir\<close> of \<open>.cursor/rules\<close>
  throws, the error is caught and printed, and when \<open>generateTemplate\<close> returns
  \<open>.cursor/.cursorrules\<close> is still there and there is no \<open>.cursor/rules/rules.mdc\<close>.
\<close>

theorem generateTemplate_cursor_migration_blocked:
  "fst (ensureDir (files (install [(''.cursorrules'', File ''legacy rules'')] []
                            [(''.cursor'', Dir [(''rules'', File ''notes'')])]))
          (example_cwd @ [''.cursor''])) = None
   \<and> copy (files (install [(''.cursorrules'', File ''legacy rules'')] []
                            [(''.cursor'', Dir [(''rules'', File ''notes'')])]))
          [''pkg'', ''templates'', ''cursor'', ''backend'', ''fastify'']
          (example_cwd @ [''.cursor''])
       = (None,
          files (install [(''.cursorrules'', File ''legacy rules'')] []
                   [(''.cursor'', Dir [(''rules'', File ''notes''), (''.cursorrules'', File ''legacy rules'')])]))
   \<and> generateTemplate example_generator example_cwd ''cursor'' ''backend'' ''fastify''
        (install [(''.cursorrules'', File ''legacy rules'')] []
           [(''.cursor'', Dir [(''rules'', File ''notes'')])])
       = (Returned (),
          (install [(''.cursorrules'', File ''legacy rules'')] []
             [(''.cursor'', Dir [(''rules'', File ''notes''), (''.cursorrules'', File ''legacy rules'')])])
          \<lparr>stdout :=
             [(Red, cross_mark @ '' Error generating template: EEXIST: file already exists, mkdir ''
                    @ [CHR 0x27] @ ''/home/project/.cursor/rules'' @ [CHR 0x27])]\<rparr>)
   \<and> lookup (files (snd (generateTemplate example_generator example_cwd ''cursor'' ''backend'' ''fastify''
        (install [(''.cursorrules'', File ''legacy rules'')] []
           [(''.cursor'', Dir [(''rules'', File ''notes'')])]))))
        (example_cwd @ [''.cursor'', ''.cursorrules'']) = Some (File ''legacy rules'')
   \<and> lookup (files (snd (generateTemplate example_generator example_cwd ''cursor'' ''backend'' ''fastify''
        (install [(''.cursorrules'', File ''legacy rules'')] []
           [(''.cursor'', Dir [(''rules'', File ''notes'')])]))))
        (example_cwd @ [''.cursor'', ''rules'', ''rules.mdc'']) = None"
  by (simp add: run_defs quoted_def path_string_def)

text \<open>
  C3, as amended.  Take a run for \<open>cursor\<close> whose template exists, whose destination can
  be created and whose copy succeeds and leaves a top-level file \<open>.cursorrules\<close> in the
  destination.

  \<^item> When, after the copy, \<open>rules\<close> is not a regular file and \<open>rules/rules.mdc\<close> is not a
    directory, \<open>generateTemplate\<close> succeeds, \<open>.cursor/.cursorrules\<close> no longer exists,
    \<open>.cursor/rules\<close> is a directory and \<open>.cursor/rules/rules.mdc\<close> is a file with exactly
    the bytes \<open>.cursorrules\<close> had.

  \<^item> Otherwise the migration fails: \<open>generateTemplate\<close> catches the error, prints the red
    line "Error generating template: ..." and returns, and the file system is the one the
    copy left, so \<open>.cursorrules\<close> is still where the copy put it, with its bytes.
\<close>

theorem generateTemplate_cursor_migration:
  assumes ex: "pathExists (files w) (templatePath this ''cursor'' category framework)"
    and e: "ensureDir (files w) (outputDir cwd ''cursor'') = (None, fs1)"
    and c: "copy fs1 (templatePath this ''cursor'' category framework) (outputDir cwd ''cursor'') = (None, fs2)"
    and f: "lookup fs2 (outputDir cwd ''cursor'' @ [''.cursorrules'']) = Some (File content)"
  shows "((\<forall>c'. lookup fs2 (outputDir cwd ''cursor'' @ [''rules'']) \<noteq> Some (File c'))
           \<and> (\<forall>es. lookup fs2 (outputDir cwd ''cursor'' @ [''rules'', ''rules.mdc'']) \<noteq> Some (Dir es))
          \<longrightarrow> (\<exists>w'. succeeds this cwd ''cursor'' category framework w w'
                \<and> lookup (files w') (outputDir cwd ''cursor'' @ [''.cursorrules'']) = None
                \<and> lookup (files w') (outputDir cwd ''cursor'' @ [''rules'', ''rules.mdc''])
                    = Some (File content)
                \<and> stat (files w') (outputDir cwd ''cursor'' @ [''rules'']) = Some IsDirectory))
       \<and> ((\<exists>c'. lookup fs2 (outputDir cwd ''cursor'' @ [''rules'']) = Some (File c'))
           \<or> (\<exists>es. lookup fs2 (outputDir cwd ''cursor'' @ [''rules'', ''rules.mdc'']) = Some (Dir es))
          \<longrightarrow> (\<exists>m. generateTemplate this cwd ''cursor'' category framework w
                      = (Returned (),
                         w\<lparr>files := fs2,
                           stdout := stdout w @
                             [(Red, cross_mark @ '' Error generating template: '' @ m)]\<rparr>))
              \<and> lookup (files (snd (generateTemplate this cwd ''cursor'' category framework w)))
                   (outputDir cwd ''cursor'' @ [''.cursorrules'']) = Some (File content))"
proof (intro conjI impI)
  let ?od = "outputDir cwd ''cursor''"
  assume "(\<forall>c'. lookup fs2 (?od @ [''rules'']) \<noteq> Some (File c'))
           \<and> (\<forall>es. lookup fs2 (?od @ [''rules'', ''rules.mdc'']) \<noteq> Some (Dir es))"
  then have r1: "\<forall>c'. lookup fs2 (?od @ [''rules'']) \<noteq> Some (File c')"
    and r2: "\<forall>es. lookup fs2 (?od @ [''rules'', ''rules.mdc'']) \<noteq> Some (Dir es)"
    by simp_all
  from migrate_cursorrules_file_ok[OF f r1 r2] obtain fs3 where
    m: "migrate_cursorrules ?od fs2 = (None, fs3)" by blast
  define w' where "w' = w\<lparr>files := fs3, stdout := stdout w @ success_lines ''cursor'' framework ?od\<rparr>"
  have g: "generateTemplate this cwd ''cursor'' category framework w = (Returned (), w')"
    using ex e c m
    by (simp add: generateTemplate_def generateTemplate_try_def templatePath_def outputDir_def
        console_log_def success_lines_def w'_def)
  have su: "succeeds this cwd ''cursor'' category framework w w'"
    using g by (simp add: succeeds_def w'_def outputDir_def)
  have a: "stat fs3 (?od @ [''.cursorrules'']) = None"
    using migrate_cursorrules_ok(1)[OF m f, of "[''.cursorrules'']"] by simp
  have b: "stat fs3 (?od @ [''rules'', ''rules.mdc'']) = Some (IsFile content)"
    using migrate_cursorrules_ok(1)[OF m f, of "[''rules'', ''rules.mdc'']"] by (simp add: stat_Nil)
  have d: "stat fs3 (?od @ [''rules'']) = Some IsDirectory"
    using migrate_cursorrules_ok(1)[OF m f, of "[''rules'']"] by simp
  from su a b d
  show "\<exists>w'. succeeds this cwd ''cursor'' category framework w w'
            \<and> lookup (files w') (?od @ [''.cursorrules'']) = None
            \<and> lookup (files w') (?od @ [''rules'', ''rules.mdc'']) = Some (File content)
            \<and> stat (files w') (?od @ [''rules'']) = Some IsDirectory"
    by (intro exI[of _ w']) (simp add: stat_eq_IsFile stat_eq_None w'_def)
next
  let ?od = "outputDir cwd ''cursor''"
  assume b: "(\<exists>c'. lookup fs2 (?od @ [''rules'']) = Some (File c'))
           \<or> (\<exists>es. lookup fs2 (?od @ [''rules'', ''rules.mdc'']) = Some (Dir es))"
  from b obtain m where m: "migrate_cursorrules ?od fs2 = (Some (Error False m), fs2)"
    using migrate_cursorrules_rules_is_file[OF f] migrate_cursorrules_target_is_dir[OF f]
    by blast
  have g: "generateTemplate this cwd ''cursor'' category framework w
             = (Returned (),
                w\<lparr>files := fs2,
                  stdout := stdout w @ [(Red, cross_mark @ '' Error generating template: '' @ m)]\<rparr>)"
    using ex e c m
    by (simp add: generateTemplate_def generateTemplate_try_def templatePath_def outputDir_def
        console_log_def)
  then show "\<exists>m. generateTemplate this cwd ''cursor'' category framework w
                      = (Returned (),
                         w\<lparr>files := fs2,
                           stdout := stdout w @
                             [(Red, cross_mark @ '' Error generating template: '' @ m)]\<rparr>)"
    by (rule exI)
  from g f show "lookup (files (snd (generateTemplate this cwd ''cursor'' category framework w)))
                   (?od @ [''.cursorrules'']) = Some (File content)"
    by simp
qed

text \<open>
  Two runs for (cursor, backend, fastify) with a template that holds a \<open>.cursorrules\<close>
  file: in an empty project, where the migration is done, and in a project whose
  \<open>.cursor/rules\<close> is a regular file, where it fails.
\<close>

theorem generateTemplate_cursor_migration_witness:
  "pathExists (files (install [(''.cursorrules'', File ''legacy rules'')] [] []))
      (templatePath example_generator ''cursor'' ''backend'' ''fastify'')
   \<and> fst (ensureDir (files (install [(''.cursorrules'', File ''legacy rules'')] [] []))
            (outputDir example_cwd ''cursor'')) = None
   \<and> fst (copy (snd (ensureDir (files (install [(''.cursorrules'', File ''legacy rules'')] [] []))
                        (outputDir example_cwd ''cursor'')))
            (templatePath example_generator ''cursor'' ''backend'' ''fastify'')
            (outputDir example_cwd ''cursor'')) = None
   \<and> (\<exists>w'. succeeds example_generator example_cwd ''cursor'' ''backend'' ''fastify''
               (install [(''.cursorrules'', File ''legacy rules'')] [] []) w'
          \<and> lookup (files w') (example_cwd @ [''.cursor'', ''.cursorrules'']) = None
          \<and> lookup (files w') (example_cwd @ [''.cursor'', ''rules'', ''rules.mdc'']) = Some (File ''legacy rules''))
   \<and> lookup (files (install [(''.cursorrules'', File ''legacy rules'')] []
                       [(''.cursor'', Dir [(''rules'', File ''notes'')])]))
        (example_cwd @ [''.cursor'', ''rules'']) = Some (File ''notes'')
   \<and> (\<exists>m. stdout (snd (generateTemplate example_generator example_cwd ''cursor'' ''backend'' ''fastify''
                (install [(''.cursorrules'', File ''legacy rules'')] []
                   [(''.cursor'', Dir [(''rules'', File ''notes'')])])))
          = [(Red, cross_mark @ '' Error generating template: '' @ m)])
   \<and> lookup (files (snd (generateTemplate example_generator example_cwd ''cursor'' ''backend'' ''fastify''
                (install [(''.cursorrules'', File ''legacy rules'')] []
                   [(''.cursor'', Dir [(''rules'', File ''notes'')])]))))
        (example_cwd @ [''.cursor'', ''.cursorrules'']) = Some (File ''legacy rules'')"
proof -
  let ?w = "install [(''.cursorrules'', File ''legacy rules'')] [] []"
  let ?v = "install [(''.cursorrules'', File ''legacy rules'')] []
              [(''.cursor'', Dir [(''rules'', File ''notes'')])]"
  let ?tp = "templatePath example_generator ''cursor'' ''backend'' ''fastify''"
  let ?od = "outputDir example_cwd ''cursor''"
  let ?fs1 = "snd (ensureDir (files ?w) ?od)"
  let ?fs2 = "snd (copy ?fs1 ?tp ?od)"
  let ?gs1 = "snd (ensureDir (files ?v) ?od)"
  let ?gs2 = "snd (copy ?gs1 ?tp ?od)"
  have h1: "pathExists (files ?w) ?tp" by (simp add: run_defs)
  have h2: "ensureDir (files ?w) ?od = (None, ?fs1)" by (simp add: run_defs)
  have h3: "copy ?fs1 ?tp ?od = (None, ?fs2)" by (simp add: run_defs)
  have h4: "lookup ?fs2 (?od @ [''.cursorrules'']) = Some (File ''legacy rules'')"
    by (simp add: run_defs)
  have h5: "\<forall>c'. lookup ?fs2 (?od @ [''rules'']) \<noteq> Some (File c')"
    by (simp add: run_defs)
  have h6: "\<forall>es. lookup ?fs2 (?od @ [''rules'', ''rules.mdc'']) \<noteq> Some (Dir es)"
    by (simp add: run_defs)
  have f2: "fst (ensureDir (files ?w) ?od) = None" and f3: "fst (copy ?fs1 ?tp ?od) = None"
    by (simp_all add: run_defs)
  from generateTemplate_cursor_migration [OF h1 h2 h3 h4] h5 h6
  have ok: "\<exists>w'. succeeds example_generator example_cwd ''cursor'' ''backend'' ''fastify'' ?w w'
          \<and> lookup (files w') (example_cwd @ [''.cursor'', ''.cursorrules'']) = None
          \<and> lookup (files w') (example_cwd @ [''.cursor'', ''rules'', ''rules.mdc'']) = Some (File ''legacy rules'')"
    by (auto simp: outputDir_cursor)
  have k1: "pathExists (files ?v) ?tp" by (simp add: run_defs)
  have k2: "ensureDir (files ?v) ?od = (None, ?gs1)" by (simp add: run_defs)
  have k3: "copy ?gs1 ?tp ?od = (None, ?gs2)" by (simp add: run_defs)
  have k4: "lookup ?gs2 (?od @ [''.cursorrules'']) = Some (File ''legacy rules'')"
    by (simp add: run_defs)
  have k5: "lookup ?gs2 (?od @ [''rules'']) = Some (File ''notes'')"
    by (simp add: run_defs)
  have k0: "lookup (files ?v) (example_cwd @ [''.cursor'', ''rules'']) = Some (File ''notes'')"
    by (simp add: run_defs)
  have s0: "stdout ?v = []" by (simp add: install_def)
  from generateTemplate_cursor_migration [OF k1 k2 k3 k4] k5
  have bl: "(\<exists>m. generateTemplate example_generator example_cwd ''cursor'' ''backend'' ''fastify'' ?v
                      = (Returned (),
                         ?v\<lparr>files := ?gs2,
                           stdout := stdout ?v @
                             [(Red, cross_mark @ '' Error generating template: '' @ m)]\<rparr>))
            \<and> lookup (files (snd (generateTemplate example_generator example_cwd ''cursor'' ''backend'' ''fastify'' ?v)))
                   (?od @ [''.cursorrules'']) = Some (File ''legacy rules'')"
    by blast
  then obtain m where g: "generateTemplate example_generator example_cwd ''cursor'' ''backend'' ''fastify'' ?v
                      = (Returned (),
                         ?v\<lparr>files := ?gs2,
                           stdout := stdout ?v @
                             [(Red, cross_mark @ '' Error generating template: '' @ m)]\<rparr>)"
    by blast
  have b1: "\<exists>m. stdout (snd (generateTemplate example_generator example_cwd ''cursor'' ''backend'' ''fastify'' ?v))
          = [(Red, cross_mark @ '' Error generating template: '' @ m)]"
    unfolding g using s0 by simp
  from bl have b2: "lookup (files (snd (generateTemplate example_generator example_cwd ''cursor'' ''backend'' ''fastify'' ?v)))
                   (example_cwd @ [''.cursor'', ''.cursorrules'']) = Some (File ''legacy rules'')"
    by (simp add: outputDir_cursor)
  from h1 f2 f3 ok k0 b1 b2 show ?thesis by blast
qed


subsection \<open>C4: the exit code\<close>





subsection \<open>C5: the guard of selectFramework\<close>

text \<open>
  C5.  \<open>selectFramework\<close> fails at once, throwing with the state untouched and no
  question taken up by the prompt layer, exactly when the category is not a key of
  \<open>FRAMEWORK_OPTIONS\<close>.
  For most such strings the guard \<open>if (!frameworks)\<close> throws; for the name of a member of
  \<open>Object.prototype\<close> the property read is truthy and the guard is passed, and it is the
  prompt library that rejects the choices, which are no array.  When the category is a key,
  the one question the prompt layer takes up offers exactly the list the table registers for it,
  which shares no framework with the list of another category, and the call ends as the
  prompt does.
\<close>

theorem selectFramework_fails_iff_not_a_key:
  "((\<exists>e. selectFramework user category w = (Threw e, w))
      \<longleftrightarrow> category \<notin> set (map fst FRAMEWORK_OPTIONS))
   \<and> (\<forall>fws. map_of FRAMEWORK_OPTIONS category = Some fws \<longrightarrow>
          asked (snd (selectFramework user category w))
            = asked w @ [\<lparr>qtype = ''list'', qname = ''framework'',
                          qmessage = ''Please select the '' @ category @ '' framework:'',
                          choices = ChoiceArray fws\<rparr>]
          \<and> fst (selectFramework user category w)
            = (case reply user \<lparr>qtype = ''list'', qname = ''framework'',
                                 qmessage = ''Please select the '' @ category @ '' framework:'',
                                 choices = ChoiceArray fws\<rparr> of
                 Answer a \<Rightarrow> Returned a | Reject e \<Rightarrow> Threw e | NoAnswer \<Rightarrow> Unsettled)
          \<and> (\<forall>other fws'. other \<noteq> category \<and> map_of FRAMEWORK_OPTIONS other = Some fws'
                 \<longrightarrow> set (map choice_value fws) \<inter> set (map choice_value fws') = {}))"
proof (intro conjI allI impI)
  show "(\<exists>e. selectFramework user category w = (Threw e, w))
      \<longleftrightarrow> category \<notin> set (map fst FRAMEWORK_OPTIONS)"
  proof
    assume "\<exists>e. selectFramework user category w = (Threw e, w)"
    then obtain e where t: "selectFramework user category w = (Threw e, w)" ..
    show "category \<notin> set (map fst FRAMEWORK_OPTIONS)"
    proof
      assume "category \<in> set (map fst FRAMEWORK_OPTIONS)"
      then obtain fws where "map_of FRAMEWORK_OPTIONS category = Some fws"
        by (metis map_of_eq_None_iff not_None_eq set_map)
      then have "asked (snd (selectFramework user category w)) \<noteq> asked w"
        by (simp add: selectFramework_known_category inquirer_prompt_def split: prompt_result.splits)
      with t show False by simp
    qed
  next
    assume "category \<notin> set (map fst FRAMEWORK_OPTIONS)"
    then have n: "map_of FRAMEWORK_OPTIONS category = None"
      by (simp add: map_of_eq_None_iff)
    show "\<exists>e. selectFramework user category w = (Threw e, w)"
    proof (cases "category \<in> set object_prototype_members")
      case True
      with n show ?thesis by (simp add: selectFramework_inherited_member)
    next
      case False
      with n show ?thesis by (simp add: selectFramework_guard_throws)
    qed
  qed
next
  fix fws assume k: "map_of FRAMEWORK_OPTIONS category = Some fws"
  show "asked (snd (selectFramework user category w))
            = asked w @ [\<lparr>qtype = ''list'', qname = ''framework'',
                          qmessage = ''Please select the '' @ category @ '' framework:'',
                          choices = ChoiceArray fws\<rparr>]"
    using k by (simp add: selectFramework_known_category inquirer_prompt_def split: prompt_result.splits)
  show "fst (selectFramework user category w)
            = (case reply user \<lparr>qtype = ''list'', qname = ''framework'',
                                 qmessage = ''Please select the '' @ category @ '' framework:'',
                                 choices = ChoiceArray fws\<rparr> of
                 Answer a \<Rightarrow> Returned a | Reject e \<Rightarrow> Threw e | NoAnswer \<Rightarrow> Unsettled)"
    using k by (simp add: selectFramework_known_category inquirer_prompt_def split: prompt_result.splits)
  fix other fws' assume o: "other \<noteq> category \<and> map_of FRAMEWORK_OPTIONS other = Some fws'"
  show "set (map choice_value fws) \<inter> set (map choice_value fws') = {}"
    using k o by (auto simp: FRAMEWORK_OPTIONS_def split: if_splits)
qed

text \<open>
  The calls for \<open>backend\<close>, a key, with a user who picks the first choice, for
  \<open>database\<close>, which the guard refuses, and for \<open>constructor\<close>, which the prompt library
  refuses.
\<close>

theorem selectFramework_fails_iff_not_a_key_witness:
  "map_of FRAMEWORK_OPTIONS ''backend'' = Some
       [\<lparr>choice_name = ''Fastify'', choice_value = ''fastify''\<rparr>,
        \<lparr>choice_name = ''NestJS'', choice_value = ''nestjs''\<rparr>,
        \<lparr>choice_name = ''Koa'', choice_value = ''koa''\<rparr>,
        \<lparr>choice_name = ''Express'', choice_value = ''express''\<rparr>,
        \<lparr>choice_name = ''Hapi'', choice_value = ''hapi''\<rparr>]
   \<and> asked (snd (selectFramework first_choices ''backend'' example_world))
       = [\<lparr>qtype = ''list'', qname = ''framework'',
           qmessage = ''Please select the backend framework:'',
           choices = ChoiceArray
             [\<lparr>choice_name = ''Fastify'', choice_value = ''fastify''\<rparr>,
              \<lparr>choice_name = ''NestJS'', choice_value = ''nestjs''\<rparr>,
              \<lparr>choice_name = ''Koa'', choice_value = ''koa''\<rparr>,
              \<lparr>choice_name = ''Express'', choice_value = ''express''\<rparr>,
              \<lparr>choice_name = ''Hapi'', choice_value = ''hapi''\<rparr>]\<rparr>]
   \<and> fst (selectFramework first_choices ''backend'' example_world) = Returned ''fastify''
   \<and> (\<exists>e. selectFramework first_choices ''database'' example_world = (Threw e, example_world))
   \<and> (\<exists>e. selectFramework first_choices ''constructor'' example_world = (Threw e, example_world))"
proof -
  let ?fws = "[\<lparr>choice_name = ''Fastify'', choice_value = ''fastify''\<rparr>,
        \<lparr>choice_name = ''NestJS'', choice_value = ''nestjs''\<rparr>,
        \<lparr>choice_name = ''Koa'', choice_value = ''koa''\<rparr>,
        \<lparr>choice_name = ''Express'', choice_value = ''express''\<rparr>,
        \<lparr>choice_name = ''Hapi'', choice_value = ''hapi''\<rparr>]"
  have k: "map_of FRAMEWORK_OPTIONS ''backend'' = Some ?fws"
    by (simp add: FRAMEWORK_OPTIONS_def)
  have n1: "''database'' \<notin> set (map fst FRAMEWORK_OPTIONS)"
    and n2: "''constructor'' \<notin> set (map fst FRAMEWORK_OPTIONS)"
    by (simp_all add: FRAMEWORK_OPTIONS_def)
  have a: "asked example_world = []" by (simp add: example_world_def)
  from selectFramework_fails_iff_not_a_key [of first_choices "''backend''" example_world] k
  have b: "asked (snd (selectFramework first_choices ''backend'' example_world))
            = asked example_world @ [\<lparr>qtype = ''list'', qname = ''framework'',
                          qmessage = ''Please select the '' @ ''backend'' @ '' framework:'',
                          choices = ChoiceArray ?fws\<rparr>]"
    and c: "fst (selectFramework first_choices ''backend'' example_world)
            = (case reply first_choices \<lparr>qtype = ''list'', qname = ''framework'',
                                 qmessage = ''Please select the '' @ ''backend'' @ '' framework:'',
                                 choices = ChoiceArray ?fws\<rparr> of
                 Answer a \<Rightarrow> Returned a | Reject e \<Rightarrow> Threw e | NoAnswer \<Rightarrow> Unsettled)"
    by blast+
  from selectFramework_fails_iff_not_a_key [of first_choices "''database''" example_world] n1
  have d: "\<exists>e. selectFramework first_choices ''database'' example_world = (Threw e, example_world)"
    by blast
  from selectFramework_fails_iff_not_a_key [of first_choices "''constructor''" example_world] n2
  have e: "\<exists>e. selectFramework first_choices ''constructor'' example_world = (Threw e, example_world)"
    by blast
  from c have c': "fst (selectFramework first_choices ''backend'' example_world) = Returned ''fastify''"
    by (simp add: first_choices_def)
  from k b a c' d e show ?thesis by simp
qed


subsection \<open>C6: running twice\<close>

text \<open>
  C6, counterexample.  The claim fails for \<open>cursor\<close> when the first run migrates a \<open>.cursorrules\<close> that was
  in the destination and the template has a \<open>rules/rules.mdc\<close> of its own.  The first run
  copies the template's \<open>rules/rules.mdc\<close> and then moves the old \<open>.cursorrules\<close> over
  it; the second run copies the template's file again and finds nothing to migrate.  Both
  runs succeed, the template is unchanged, and \<open>.cursor/rules/rules.mdc\<close> holds the old
  rules after the first run and the template's rules after the second.
\<close>

theorem generateTemplate_twice_differs:
  "succeeds example_generator example_cwd ''cursor'' ''backend'' ''fastify''
     (install [(''rules'', Dir [(''rules.mdc'', File ''template rules'')])] []
        [(''.cursor'', Dir [(''.cursorrules'', File ''old rules'')])])
     (snd (generateTemplate example_generator example_cwd ''cursor'' ''backend'' ''fastify''
        (install [(''rules'', Dir [(''rules.mdc'', File ''template rules'')])] []
           [(''.cursor'', Dir [(''.cursorrules'', File ''old rules'')])])))
   \<and> lookup (files (snd (generateTemplate example_generator example_cwd ''cursor'' ''backend'' ''fastify''
        (install [(''rules'', Dir [(''rules.mdc'', File ''template rules'')])] []
           [(''.cursor'', Dir [(''.cursorrules'', File ''old rules'')])]))))
        (templatePath example_generator ''cursor'' ''backend'' ''fastify'')
      = lookup (files (install [(''rules'', Dir [(''rules.mdc'', File ''template rules'')])] []
           [(''.cursor'', Dir [(''.cursorrules'', File ''old rules'')])]))
        (templatePath example_generator ''cursor'' ''backend'' ''fastify'')
   \<and> succeeds example_generator example_cwd ''cursor'' ''backend'' ''fastify''
     (snd (generateTemplate example_generator example_cwd ''cursor'' ''backend'' ''fastify''
        (install [(''rules'', Dir [(''rules.mdc'', File ''template rules'')])] []
           [(''.cursor'', Dir [(''.cursorrules'', File ''old rules'')])])))
     (snd (generateTemplate example_generator example_cwd ''cursor'' ''backend'' ''fastify''
        (snd (generateTemplate example_generator example_cwd ''cursor'' ''backend'' ''fastify''
          (install [(''rules'', Dir [(''rules.mdc'', File ''template rules'')])] []
             [(''.cursor'', Dir [(''.cursorrules'', File ''old rules'')])])))))
   \<and> lookup (files (snd (generateTemplate example_generator example_cwd ''cursor'' ''backend'' ''fastify''
        (install [(''rules'', Dir [(''rules.mdc'', File ''template rules'')])] []
           [(''.cursor'', Dir [(''.cursorrules'', File ''old rules'')])]))))
        (example_cwd @ [''.cursor'', ''rules'', ''rules.mdc'']) = Some (File ''old rules'')
   \<and> lookup (files (snd (generateTemplate example_generator example_cwd ''cursor'' ''backend'' ''fastify''
        (snd (generateTemplate example_generator example_cwd ''cursor'' ''backend'' ''fastify''
          (install [(''rules'', Dir [(''rules.mdc'', File ''template rules'')])] []
             [(''.cursor'', Dir [(''.cursorrules'', File ''old rules'')])]))))))
        (example_cwd @ [''.cursor'', ''rules'', ''rules.mdc'']) = Some (File ''template rules'')"
  by (simp add: run_defs)

text \<open>
  C6, as amended.  Let a first run succeed and leave the template directory unchanged (in a
  file system whose directories list each name once).  For a tool other than \<open>cursor\<close>,
  and for \<open>cursor\<close> when the template holds \<open>.cursorrules\<close> as a regular file, or holds
  no \<open>.cursorrules\<close> while the destination had none either or the template has no
  \<open>rules/rules.mdc\<close>, the second run with the same triple succeeds too and leaves every
  path of the file system as the first run left it: the same files with the same bytes
  and the same directories.
\<close>

theorem generateTemplate_twice:
  assumes su: "succeeds this cwd ai category framework w w1"
    and wf: "wf_node (files w)"
    and same: "lookup (files w1) (templatePath this ai category framework)
                 = lookup (files w) (templatePath this ai category framework)"
    and cond: "ai = ''cursor'' \<longrightarrow>
       (\<exists>c. lookup (files w) (templatePath this ai category framework @ [''.cursorrules'']) = Some (File c))
       \<or> (lookup (files w) (templatePath this ai category framework @ [''.cursorrules'']) = None
           \<and> (lookup (files w) (outputDir cwd ai @ [''.cursorrules'']) = None
                \<or> lookup (files w) (templatePath this ai category framework @ [''rules'', ''rules.mdc'']) = None))"
  shows "\<exists>w2. succeeds this cwd ai category framework w1 w2
              \<and> (\<forall>q. stat (files w2) q = stat (files w1) q)"
proof -
  let ?tp = "templatePath this ai category framework" and ?od = "outputDir cwd ai"
  let ?cr = "[''.cursorrules'']" and ?rm = "[''rules'', ''rules.mdc'']"
  from succeeds_stat[OF su wf] obtain s0 where s0: "lookup (files w) ?tp = Some s0"
    and d0: "is_dir s0" and np: "\<not> prefix ?tp ?od" by auto
  from d0 obtain ss where "s0 = Dir ss" by (cases s0) simp_all
  with s0 have s: "lookup (files w) ?tp = Some (Dir ss)" by simp
  have wfs: "wf_node (Dir ss)" using wf s by (rule wf_node_lookup)
  have s1: "lookup (files w1) ?tp = Some (Dir ss)" using same s by simp
  let ?T = "stat (Dir ss)"
  let ?D = "\<lambda>r. stat (files w) (?od @ r)"
  let ?G = "\<lambda>r. stat (files w1) (?od @ r)"
  have tT: "\<And>r. stat (files w) (?tp @ r) = ?T r" using s by (simp add: stat_append)
  from succeeds_stat_template[OF su s wfs] obtain fs2 where
    st1: "\<And>r. stat fs2 (?od @ r) = (case ?T r of Some e \<Rightarrow> Some e | None \<Rightarrow> ?D r)"
    and m1: "(if ai = ''cursor'' then migrate_cursorrules ?od fs2 else (None, fs2)) = (None, files w1)"
    by auto
  have dir1: "stat (files w1) ?od = Some IsDirectory"
    using su s wfs by (rule succeeds_destination_dir)
  then obtain ds1 where ds1: "lookup (files w1) ?od = Some (Dir ds1)"
    by (auto simp: stat_eq_IsDirectory)
  have nf1: "\<forall>q c. prefix q ?od \<longrightarrow> lookup (files w1) q \<noteq> Some (File c)"
    using prefixes_of_dir_not_file[OF ds1] by blast
  have tail: ?thesis
    if nc1: "\<forall>r. \<not> clash (?T r) (?G r)"
      and mig1: "ai = ''cursor'' \<Longrightarrow>
        (?T ?cr = None \<and> ?G ?cr = None)
        \<or> (\<exists>c. (case ?T ?cr of Some e \<Rightarrow> Some e | None \<Rightarrow> ?G ?cr) = Some (IsFile c)
              \<and> (\<forall>c'. (case ?T [''rules''] of Some e \<Rightarrow> Some e | None \<Rightarrow> ?G [''rules'']) \<noteq> Some (IsFile c'))
              \<and> (case ?T ?rm of Some e \<Rightarrow> Some e | None \<Rightarrow> ?G ?rm) \<noteq> Some IsDirectory)"
      and fin: "\<And>(w2::world) fs2'.
          (\<And>r. stat fs2' (?od @ r) = (case ?T r of Some e \<Rightarrow> Some e | None \<Rightarrow> ?G r)) \<Longrightarrow>
          (if ai = ''cursor'' then migrate_cursorrules ?od fs2' else (None, fs2')) = (None, files w2) \<Longrightarrow>
          (\<forall>r. stat (files w2) (?od @ r) = ?G r)"
  proof -
    from generateTemplate_succeeds_if[OF s1 wfs nf1 np nc1 mig1] obtain w2 where
      su2: "succeeds this cwd ai category framework w1 w2" by blast
    from succeeds_stat_template[OF su2 s1 wfs] obtain fs2' where
      st2: "\<And>r. stat fs2' (?od @ r) = (case ?T r of Some e \<Rightarrow> Some e | None \<Rightarrow> ?G r)"
      and m2: "(if ai = ''cursor'' then migrate_cursorrules ?od fs2' else (None, fs2')) = (None, files w2)"
      by auto
    have "\<forall>r. stat (files w2) (?od @ r) = ?G r" by (rule fin[of fs2' w2]) (rule st2, rule m2)
    then have inside: "\<And>r. stat (files w2) (?od @ r) = ?G r" by blast
    have "stat (files w2) q = stat (files w1) q" for q
    proof (cases "prefix ?od q")
      case True
      then obtain r where "q = ?od @ r" by (auto simp: prefix_def)
      then show ?thesis using inside[of r] by simp
    next
      case False
      have a: "stat (files w2) q = (if prefix q ?od then Some IsDirectory else stat (files w1) q)"
        using su2 s1 wfs False by (rule succeeds_outside)
      show ?thesis
      proof (cases "prefix q ?od")
        case True
        with False obtain t where t: "?od = q @ t" "t \<noteq> []"
          by (auto simp: prefix_def)
        have "stat (files w1) (q @ t) \<noteq> None" using dir1 t(1) by simp
        from stat_above_dir[OF this t(2)] a True show ?thesis by simp
      next
        case False
        with a show ?thesis by simp
      qed
    qed
    with su2 show ?thesis by blast
  qed
  have G_plain: "\<And>r. ?G r = (case ?T r of Some e \<Rightarrow> Some e | None \<Rightarrow> ?D r)"
    if "ai \<noteq> ''cursor'' \<or> (?T ?cr = None \<and> ?D ?cr = None)"
  proof -
    have "files w1 = fs2"
    proof (cases "ai = ''cursor''")
      case False
      with m1 show ?thesis by simp
    next
      case True
      with that have "stat fs2 (?od @ ?cr) = None" using st1[of ?cr] by simp
      then have "lookup fs2 (?od @ ?cr) = None" by (simp add: stat_eq_None)
      with m1 True show ?thesis by (simp add: migrate_cursorrules_none)
    qed
    then show "\<And>r. ?G r = (case ?T r of Some e \<Rightarrow> Some e | None \<Rightarrow> ?D r)" using st1 by simp
  qed
  consider (other) "ai \<noteq> ''cursor''"
    | (none) "ai = ''cursor''" and "?T ?cr = None" and "?D ?cr = None"
    | (template_file) c where "ai = ''cursor''" and "?T ?cr = Some (IsFile c)"
    | (dest) "ai = ''cursor''" and "?T ?cr = None" and "?D ?cr \<noteq> None" and "?T ?rm = None"
  proof (cases "ai = ''cursor''")
    case False
    then show ?thesis by (rule other)
  next
    case True
    with cond have "(\<exists>c. ?T ?cr = Some (IsFile c))
       \<or> (?T ?cr = None \<and> (?D ?cr = None \<or> ?T ?rm = None))"
      by (simp add: tT[symmetric] stat_eq_IsFile stat_eq_None)
    with True show ?thesis using none template_file dest by blast
  qed
  then show ?thesis
  proof cases
    case other
    have G: "\<And>r. ?G r = (case ?T r of Some e \<Rightarrow> Some e | None \<Rightarrow> ?D r)"
      using other by (intro G_plain) simp
    show ?thesis
    proof (rule tail)
      show "\<forall>r. \<not> clash (?T r) (?G r)" by (simp add: G split: option.splits)
    next
      assume "ai = ''cursor''" with other show "(?T ?cr = None \<and> ?G ?cr = None)
        \<or> (\<exists>c. (case ?T ?cr of Some e \<Rightarrow> Some e | None \<Rightarrow> ?G ?cr) = Some (IsFile c)
              \<and> (\<forall>c'. (case ?T [''rules''] of Some e \<Rightarrow> Some e | None \<Rightarrow> ?G [''rules'']) \<noteq> Some (IsFile c'))
              \<and> (case ?T ?rm of Some e \<Rightarrow> Some e | None \<Rightarrow> ?G ?rm) \<noteq> Some IsDirectory)"
        by simp
    next
      fix w2 fs2'
      assume st2: "\<And>r. stat fs2' (?od @ r) = (case ?T r of Some e \<Rightarrow> Some e | None \<Rightarrow> ?G r)"
        and m2: "(if ai = ''cursor'' then migrate_cursorrules ?od fs2' else (None, fs2')) = (None, files w2)"
      from m2 other have "files w2 = fs2'" by simp
      then show "\<forall>r. stat (files w2) (?od @ r) = ?G r"
        using st2 by (simp add: G split: option.splits)
    qed
  next
    case none
    have G: "\<And>r. ?G r = (case ?T r of Some e \<Rightarrow> Some e | None \<Rightarrow> ?D r)"
      using none by (intro G_plain) simp
    show ?thesis
    proof (rule tail)
      show "\<forall>r. \<not> clash (?T r) (?G r)" by (simp add: G split: option.splits)
    next
      show "(?T ?cr = None \<and> ?G ?cr = None)
        \<or> (\<exists>c. (case ?T ?cr of Some e \<Rightarrow> Some e | None \<Rightarrow> ?G ?cr) = Some (IsFile c)
              \<and> (\<forall>c'. (case ?T [''rules''] of Some e \<Rightarrow> Some e | None \<Rightarrow> ?G [''rules'']) \<noteq> Some (IsFile c'))
              \<and> (case ?T ?rm of Some e \<Rightarrow> Some e | None \<Rightarrow> ?G ?rm) \<noteq> Some IsDirectory)"
        using none G[of ?cr] by simp
    next
      fix w2 fs2'
      assume st2: "\<And>r. stat fs2' (?od @ r) = (case ?T r of Some e \<Rightarrow> Some e | None \<Rightarrow> ?G r)"
        and m2: "(if ai = ''cursor'' then migrate_cursorrules ?od fs2' else (None, fs2')) = (None, files w2)"
      have "stat fs2' (?od @ ?cr) = None" using st2[of ?cr] G[of ?cr] none by simp
      then have "lookup fs2' (?od @ ?cr) = None" by (simp add: stat_eq_None)
      with m2 none have "files w2 = fs2'" by (simp add: migrate_cursorrules_none)
      then show "\<forall>r. stat (files w2) (?od @ r) = ?G r"
        using st2 by (simp add: G split: option.splits)
    qed
  next
    case (template_file c)
    from m1 template_file have mc1: "migrate_cursorrules ?od fs2 = (None, files w1)" by simp
    have "stat fs2 (?od @ ?cr) = Some (IsFile c)" using st1[of ?cr] template_file by simp
    then have x: "lookup fs2 (?od @ ?cr) = Some (File c)" by (simp add: stat_eq_IsFile)
    have G: "\<And>r. ?G r =
       (if prefix ?rm r then stat (File c) (drop 2 r)
        else if prefix ?cr r then None
        else if r = [''rules''] then Some IsDirectory
        else (case ?T r of Some e \<Rightarrow> Some e | None \<Rightarrow> ?D r))"
      using migrate_cursorrules_ok(1)[OF mc1 x] st1 by simp
    have k1: "?T [''rules''] \<noteq> Some (IsFile c')" for c'
    proof
      assume "?T [''rules''] = Some (IsFile c')"
      then have "stat fs2 (?od @ [''rules'']) = Some (IsFile c')" using st1[of "[''rules'']"] by simp
      then have "lookup fs2 (?od @ [''rules'']) = Some (File c')" by (simp add: stat_eq_IsFile)
      with migrate_cursorrules_ok_kinds(1)[OF mc1 x, of c'] show False by simp
    qed
    have k2: "?T ?rm \<noteq> Some IsDirectory"
    proof
      assume "?T ?rm = Some IsDirectory"
      then have "stat fs2 (?od @ ?rm) = Some IsDirectory" using st1[of ?rm] by simp
      moreover have "stat fs2 (?od @ ?cr) = Some (IsFile c)" using x by (simp add: stat_eq_IsFile)
      ultimately show False using migrate_cursorrules_ok_kinds(2)[OF mc1 x] by simp
    qed
    show ?thesis
    proof (rule tail)
      show "\<forall>r. \<not> clash (?T r) (?G r)"
      proof
        fix r
        show "\<not> clash (?T r) (?G r)"
        proof (cases "prefix ?rm r")
          case True
          then obtain t where t: "r = ?rm @ t" by (auto simp: prefix_def)
          show ?thesis
          proof (cases "t = []")
            case True
            with t have "?G r = Some (IsFile c)" by (simp add: G stat_Nil)
            then show ?thesis using k2 t True by (simp add: clash_with_file)
          next
            case False
            with t have "?G r = None" unfolding G by (cases t) (simp_all add: stat_File_Cons)
            then show ?thesis by simp
          qed
        next
          case False
          note nrm = this
          show ?thesis
          proof (cases "prefix ?cr r")
            case True
            with nrm have "?G r = None" by (simp add: G)
            then show ?thesis by simp
          next
            case False
            show ?thesis
            proof (cases "r = [''rules'']")
              case True
              then have "?G r = Some IsDirectory" by (simp add: G)
              then show ?thesis using k1 True by (simp add: clash_with_dir)
            next
              case False
              with nrm \<open>\<not> prefix ?cr r\<close>
              have "?G r = (case ?T r of Some e \<Rightarrow> Some e | None \<Rightarrow> ?D r)" by (simp add: G)
              then show ?thesis by (simp split: option.splits)
            qed
          qed
        qed
      qed
    next
      have a: "(case ?T ?cr of Some e \<Rightarrow> Some e | None \<Rightarrow> ?G ?cr) = Some (IsFile c)"
        using template_file by simp
      have b: "\<forall>c'. (case ?T [''rules''] of Some e \<Rightarrow> Some e | None \<Rightarrow> ?G [''rules'']) \<noteq> Some (IsFile c')"
        using k1 by (auto simp: G split: option.splits)
      have c: "(case ?T ?rm of Some e \<Rightarrow> Some e | None \<Rightarrow> ?G ?rm) \<noteq> Some IsDirectory"
        using k2 by (auto simp: G stat_Nil split: option.splits)
      from a b c show "(?T ?cr = None \<and> ?G ?cr = None)
        \<or> (\<exists>c. (case ?T ?cr of Some e \<Rightarrow> Some e | None \<Rightarrow> ?G ?cr) = Some (IsFile c)
              \<and> (\<forall>c'. (case ?T [''rules''] of Some e \<Rightarrow> Some e | None \<Rightarrow> ?G [''rules'']) \<noteq> Some (IsFile c'))
              \<and> (case ?T ?rm of Some e \<Rightarrow> Some e | None \<Rightarrow> ?G ?rm) \<noteq> Some IsDirectory)"
        by blast
    next
      fix w2 fs2'
      assume st2: "\<And>r. stat fs2' (?od @ r) = (case ?T r of Some e \<Rightarrow> Some e | None \<Rightarrow> ?G r)"
        and m2: "(if ai = ''cursor'' then migrate_cursorrules ?od fs2' else (None, fs2')) = (None, files w2)"
      from m2 template_file have mc2: "migrate_cursorrules ?od fs2' = (None, files w2)" by simp
      have "stat fs2' (?od @ ?cr) = Some (IsFile c)" using st2[of ?cr] template_file by simp
      then have x2: "lookup fs2' (?od @ ?cr) = Some (File c)" by (simp add: stat_eq_IsFile)
      have G2: "\<And>r. stat (files w2) (?od @ r) =
         (if prefix ?rm r then stat (File c) (drop 2 r)
          else if prefix ?cr r then None
          else if r = [''rules''] then Some IsDirectory
          else (case ?T r of Some e \<Rightarrow> Some e | None \<Rightarrow> ?G r))"
        using migrate_cursorrules_ok(1)[OF mc2 x2] st2 by simp
      show "\<forall>r. stat (files w2) (?od @ r) = ?G r"
      proof
        fix r
        show "stat (files w2) (?od @ r) = ?G r"
          unfolding G2 by (subst (2) G) (simp add: G split: option.splits)
      qed
    qed
  next
    case dest
    from m1 dest have mc1: "migrate_cursorrules ?od fs2 = (None, files w1)" by simp
    have "stat fs2 (?od @ ?cr) \<noteq> None" using st1[of ?cr] dest by simp
    then obtain x where x: "lookup fs2 (?od @ ?cr) = Some x" by (auto simp: stat_def)
    have G: "\<And>r. ?G r =
       (if prefix ?rm r then stat x (drop 2 r)
        else if prefix ?cr r then None
        else if r = [''rules''] then Some IsDirectory
        else (case ?T r of Some e \<Rightarrow> Some e | None \<Rightarrow> ?D r))"
      using migrate_cursorrules_ok(1)[OF mc1 x] st1 by simp
    have k1: "?T [''rules''] \<noteq> Some (IsFile c')" for c'
    proof
      assume "?T [''rules''] = Some (IsFile c')"
      then have "stat fs2 (?od @ [''rules'']) = Some (IsFile c')" using st1[of "[''rules'']"] by simp
      then have "lookup fs2 (?od @ [''rules'']) = Some (File c')" by (simp add: stat_eq_IsFile)
      with migrate_cursorrules_ok_kinds(1)[OF mc1 x, of c'] show False by simp
    qed
    have trm: "?T r = None" if "prefix ?rm r" for r
    proof -
      from that obtain t where "r = ?rm @ t" by (auto simp: prefix_def)
      then show ?thesis using stat_below_None[OF dest(4), of t] by simp
    qed
    have tcr: "?T r = None" if "prefix ?cr r" for r
    proof -
      from that obtain t where "r = ?cr @ t" by (auto simp: prefix_def)
      then show ?thesis using stat_below_None[OF dest(2), of t] by simp
    qed
    have trules: "(case ?T [''rules''] of Some e \<Rightarrow> Some e | None \<Rightarrow> Some IsDirectory) = Some IsDirectory"
    proof (cases "?T [''rules'']")
      case None
      then show ?thesis by simp
    next
      case (Some e)
      with k1 show ?thesis by (cases e) auto
    qed
    show ?thesis
    proof (rule tail)
      show "\<forall>r. \<not> clash (?T r) (?G r)"
      proof
        fix r
        show "\<not> clash (?T r) (?G r)"
        proof (cases "prefix ?rm r \<or> prefix ?cr r")
          case True
          then have "?T r = None" using trm tcr by blast
          then show ?thesis by simp
        next
          case False
          show ?thesis
          proof (cases "r = [''rules'']")
            case True
            then have "?G r = Some IsDirectory" by (simp add: G)
            then show ?thesis using k1 True by (simp add: clash_with_dir)
          next
            case nr: False
            with False have "?G r = (case ?T r of Some e \<Rightarrow> Some e | None \<Rightarrow> ?D r)"
              by (simp add: G)
            then show ?thesis by (simp split: option.splits)
          qed
        qed
      qed
    next
      have "?G ?cr = None" by (simp add: G)
      with dest(2) show "(?T ?cr = None \<and> ?G ?cr = None)
        \<or> (\<exists>c. (case ?T ?cr of Some e \<Rightarrow> Some e | None \<Rightarrow> ?G ?cr) = Some (IsFile c)
              \<and> (\<forall>c'. (case ?T [''rules''] of Some e \<Rightarrow> Some e | None \<Rightarrow> ?G [''rules'']) \<noteq> Some (IsFile c'))
              \<and> (case ?T ?rm of Some e \<Rightarrow> Some e | None \<Rightarrow> ?G ?rm) \<noteq> Some IsDirectory)"
        by blast
    next
      fix w2 fs2'
      assume st2: "\<And>r. stat fs2' (?od @ r) = (case ?T r of Some e \<Rightarrow> Some e | None \<Rightarrow> ?G r)"
        and m2: "(if ai = ''cursor'' then migrate_cursorrules ?od fs2' else (None, fs2')) = (None, files w2)"
      have "?G ?cr = None" by (simp add: G)
      then have "stat fs2' (?od @ ?cr) = None" using st2[of ?cr] dest(2) by simp
      then have "lookup fs2' (?od @ ?cr) = None" by (simp add: stat_eq_None)
      with m2 dest(1) have w2: "files w2 = fs2'" by (simp add: migrate_cursorrules_none)
      show "\<forall>r. stat (files w2) (?od @ r) = ?G r"
      proof
        fix r
        show "stat (files w2) (?od @ r) = ?G r"
        proof (cases "prefix ?rm r \<or> prefix ?cr r")
          case True
          then have "?T r = None" using trm tcr by blast
          then show ?thesis unfolding w2 st2 by simp
        next
          case False
          show ?thesis
          proof (cases "r = [''rules'']")
            case True
            have "?G [''rules''] = Some IsDirectory" by (simp add: G)
            then show ?thesis unfolding w2 st2 True using trules by (simp split: option.splits)
          next
            case nr: False
            with False have "?G r = (case ?T r of Some e \<Rightarrow> Some e | None \<Rightarrow> ?D r)"
              by (simp add: G)
            then show ?thesis unfolding w2 st2 by (simp split: option.splits)
          qed
        qed
      qed
    qed
  qed
qed

text \<open>Two runs for (cursor, backend, fastify) with a template that holds a \<open>.cursorrules\<close> file.\<close>

theorem generateTemplate_twice_witness:
  "wf_node (files (install [(''.cursorrules'', File ''legacy rules'')] [] []))
   \<and> succeeds example_generator example_cwd ''cursor'' ''backend'' ''fastify''
        (install [(''.cursorrules'', File ''legacy rules'')] [] [])
        (snd (generateTemplate example_generator example_cwd ''cursor'' ''backend'' ''fastify''
           (install [(''.cursorrules'', File ''legacy rules'')] [] [])))
   \<and> lookup (files (snd (generateTemplate example_generator example_cwd ''cursor'' ''backend'' ''fastify''
           (install [(''.cursorrules'', File ''legacy rules'')] [] []))))
        (templatePath example_generator ''cursor'' ''backend'' ''fastify'')
      = lookup (files (install [(''.cursorrules'', File ''legacy rules'')] [] []))
        (templatePath example_generator ''cursor'' ''backend'' ''fastify'')
   \<and> lookup (files (install [(''.cursorrules'', File ''legacy rules'')] [] []))
        (templatePath example_generator ''cursor'' ''backend'' ''fastify'' @ [''.cursorrules''])
      = Some (File ''legacy rules'')
   \<and> (\<exists>w2. succeeds example_generator example_cwd ''cursor'' ''backend'' ''fastify''
               (snd (generateTemplate example_generator example_cwd ''cursor'' ''backend'' ''fastify''
                  (install [(''.cursorrules'', File ''legacy rules'')] [] []))) w2
          \<and> (\<forall>q. stat (files w2) q
                = stat (files (snd (generateTemplate example_generator example_cwd ''cursor'' ''backend'' ''fastify''
                    (install [(''.cursorrules'', File ''legacy rules'')] [] [])))) q))"
proof -
  let ?w = "install [(''.cursorrules'', File ''legacy rules'')] [] []"
  let ?w1 = "snd (generateTemplate example_generator example_cwd ''cursor'' ''backend'' ''fastify'' ?w)"
  let ?tp = "templatePath example_generator ''cursor'' ''backend'' ''fastify''"
  have h1: "succeeds example_generator example_cwd ''cursor'' ''backend'' ''fastify'' ?w ?w1"
    by (simp add: run_defs)
  have h2: "wf_node (files ?w)" by (simp add: install_def)
  have h3: "lookup (files ?w1) ?tp = lookup (files ?w) ?tp" by (simp add: run_defs)
  have f: "lookup (files ?w) (?tp @ [''.cursorrules'']) = Some (File ''legacy rules'')"
    by (simp add: run_defs)
  then have h4: "''cursor'' = ''cursor'' \<longrightarrow>
       (\<exists>c. lookup (files ?w) (?tp @ [''.cursorrules'']) = Some (File c))
       \<or> (lookup (files ?w) (?tp @ [''.cursorrules'']) = None
           \<and> (lookup (files ?w) (outputDir example_cwd ''cursor'' @ [''.cursorrules'']) = None
                \<or> lookup (files ?w) (?tp @ [''rules'', ''rules.mdc'']) = None))"
    by blast
  from generateTemplate_twice [OF h1 h2 h3 h4] h1 h2 h3 f
  show ?thesis by blast
qed


subsection \<open>C7: no migration for the other tools\<close>

text \<open>
  C7.  For a tool other than \<open>cursor\<close> the post-processing block is skipped in every run.

  \<^item> Whenever the template path exists and the destination can be created, whether the
    copy then succeeds or throws, \<open>generateTemplate\<close> returns and leaves the file system
    exactly as the copy left it: a \<open>.cursorrules\<close> file that is in the destination after
    the copy is still at \<open>.ai/.cursorrules\<close> with the same bytes, and
    \<open>.ai/rules/rules.mdc\<close> is what the copy left there.

  \<^item> In every run, also one that finds no template or cannot create the destination,
    when the template has nothing at \<open>rules/rules.mdc\<close> the path \<open>.ai/rules/rules.mdc\<close> is
    what it was before the run: the program has created none.

  \<^item> A successful run leaves below the destination exactly the copy laid over what was
    there: at every relative path the template's entry if it has one, the previous entry
    otherwise; so a \<open>.cursorrules\<close> file of the template is at \<open>.ai/.cursorrules\<close> with
    the same bytes.

  The second and third part are for a file system whose directories list each name once.
\<close>

theorem generateTemplate_other_tool_no_migration:
  assumes ai: "ai \<noteq> ''cursor''"
  shows "(\<forall>fs1 err fs2.
            pathExists (files w) (templatePath this ai category framework)
            \<and> ensureDir (files w) (outputDir cwd ai) = (None, fs1)
            \<and> copy fs1 (templatePath this ai category framework) (outputDir cwd ai) = (err, fs2)
            \<longrightarrow> fst (generateTemplate this cwd ai category framework w) = Returned ()
               \<and> files (snd (generateTemplate this cwd ai category framework w)) = fs2
               \<and> (\<forall>c. lookup fs2 (outputDir cwd ai @ [''.cursorrules'']) = Some (File c)
                      \<longrightarrow> lookup (files (snd (generateTemplate this cwd ai category framework w)))
                             (outputDir cwd ai @ [''.cursorrules'']) = Some (File c))
               \<and> stat (files (snd (generateTemplate this cwd ai category framework w)))
                     (outputDir cwd ai @ [''rules'', ''rules.mdc''])
                   = stat fs2 (outputDir cwd ai @ [''rules'', ''rules.mdc'']))
       \<and> (wf_node (files w)
            \<and> lookup (files w) (templatePath this ai category framework @ [''rules'', ''rules.mdc'']) = None
            \<longrightarrow> stat (files (snd (generateTemplate this cwd ai category framework w)))
                     (outputDir cwd ai @ [''rules'', ''rules.mdc''])
                   = stat (files w) (outputDir cwd ai @ [''rules'', ''rules.mdc'']))
       \<and> (\<forall>w'. succeeds this cwd ai category framework w w' \<and> wf_node (files w)
            \<longrightarrow> (\<forall>r. stat (files w') (outputDir cwd ai @ r) =
                      (case stat (files w) (templatePath this ai category framework @ r) of
                         Some e \<Rightarrow> Some e
                       | None \<Rightarrow> stat (files w) (outputDir cwd ai @ r)))
               \<and> (\<forall>c. lookup (files w) (templatePath this ai category framework @ [''.cursorrules''])
                          = Some (File c)
                      \<longrightarrow> lookup (files w') (outputDir cwd ai @ [''.cursorrules'']) = Some (File c)))"
proof (intro conjI allI impI)
  let ?tp = "templatePath this ai category framework" and ?od = "outputDir cwd ai"
  let ?g = "generateTemplate this cwd ai category framework w"
  fix fs1 err fs2
  assume h: "pathExists (files w) ?tp \<and> ensureDir (files w) ?od = (None, fs1)
             \<and> copy fs1 ?tp ?od = (err, fs2)"
  then have ex: "pathExists (files w) (path_join (templatesDir this) [ai, category, framework])"
    and e: "ensureDir (files w) (path_join cwd [''.'' @ ai]) = (None, fs1)"
    and c: "copy fs1 (path_join (templatesDir this) [ai, category, framework])
              (path_join cwd [''.'' @ ai]) = (err, fs2)"
    by (simp_all add: templatePath_def outputDir_def)
  show r: "fst ?g = Returned ()" using ai ex e c by (rule generateTemplate_files(1))
  show f: "files (snd ?g) = fs2" using ai ex e c by (rule generateTemplate_files(2))
  show "stat (files (snd ?g)) (?od @ [''rules'', ''rules.mdc''])
          = stat fs2 (?od @ [''rules'', ''rules.mdc''])"
    using f by simp
  fix c' assume "lookup fs2 (?od @ [''.cursorrules'']) = Some (File c')"
  then show "lookup (files (snd ?g)) (?od @ [''.cursorrules'']) = Some (File c')"
    using f by simp
next
  let ?tp = "templatePath this ai category framework" and ?od = "outputDir cwd ai"
  assume h: "wf_node (files w) \<and> lookup (files w) (?tp @ [''rules'', ''rules.mdc'']) = None"
  then have wf: "wf_node (files w)"
    and n: "lookup (files w) (path_join (templatesDir this) [ai, category, framework]
              @ [''rules'', ''rules.mdc'']) = None"
    by (simp_all add: templatePath_def)
  have "stat (files (snd (generateTemplate this cwd ai category framework w)))
          (path_join cwd [''.'' @ ai] @ [''rules'', ''rules.mdc''])
        = stat (files w) (path_join cwd [''.'' @ ai] @ [''rules'', ''rules.mdc''])"
    using wf n ai by (rule generateTemplate_absent_path) simp
  then show "stat (files (snd (generateTemplate this cwd ai category framework w)))
          (?od @ [''rules'', ''rules.mdc''])
        = stat (files w) (?od @ [''rules'', ''rules.mdc''])"
    by (simp add: outputDir_def)
next
  let ?tp = "templatePath this ai category framework" and ?od = "outputDir cwd ai"
  fix w' assume h: "succeeds this cwd ai category framework w w' \<and> wf_node (files w)"
  then have su: "succeeds this cwd ai category framework w w'" and wf: "wf_node (files w)"
    by simp_all
  from succeeds_stat[OF su wf] ai obtain s where
    s: "lookup (files w) ?tp = Some s"
    and st: "\<And>r. stat (files w') (?od @ r) =
                 (case stat s r of Some e \<Rightarrow> Some e | None \<Rightarrow> stat (files w) (?od @ r))"
    by auto
  have ts: "\<And>r. stat (files w) (?tp @ r) = stat s r"
    using s by (simp add: stat_append)
  have all: "\<And>r. stat (files w') (?od @ r) =
              (case stat (files w) (?tp @ r) of Some e \<Rightarrow> Some e | None \<Rightarrow> stat (files w) (?od @ r))"
    using st ts by simp
  fix r show "stat (files w') (?od @ r) =
              (case stat (files w) (?tp @ r) of Some e \<Rightarrow> Some e | None \<Rightarrow> stat (files w) (?od @ r))"
    by (rule all)
  fix c assume "lookup (files w) (?tp @ [''.cursorrules'']) = Some (File c)"
  then have "stat (files w) (?tp @ [''.cursorrules'']) = Some (IsFile c)"
    by (simp add: stat_eq_IsFile)
  then have "stat (files w') (?od @ [''.cursorrules'']) = Some (IsFile c)"
    using all[of "[''.cursorrules'']"] by simp
  then show "lookup (files w') (?od @ [''.cursorrules'']) = Some (File c)"
    by (simp add: stat_eq_IsFile)
qed

text \<open>
  Two runs for (claude, frontend, react).  In the first the template holds a
  \<open>.cursorrules\<close> file and the project is empty: the run succeeds and the file is at
  \<open>.claude/.cursorrules\<close>.  In the second the project already has \<open>.claude/.cursorrules\<close>
  and a directory \<open>.claude/docs\<close>, and the one entry of the template is a file \<open>docs\<close>: the
  copy throws, the error is caught, and \<open>.claude/.cursorrules\<close> is still there with its
  bytes.  No \<open>rules/rules.mdc\<close> exists after either run.
\<close>

theorem generateTemplate_other_tool_no_migration_witness:
  "''claude'' \<noteq> ''cursor''
   \<and> wf_node (files (install [] [(''.cursorrules'', File ''legacy rules''), (''project_knowledge.md'', File ''react notes'')] []))
   \<and> succeeds example_generator example_cwd ''claude'' ''frontend'' ''react''
        (install [] [(''.cursorrules'', File ''legacy rules''), (''project_knowledge.md'', File ''react notes'')] [])
        (snd (generateTemplate example_generator example_cwd ''claude'' ''frontend'' ''react''
           (install [] [(''.cursorrules'', File ''legacy rules''), (''project_knowledge.md'', File ''react notes'')] [])))
   \<and> lookup (files (snd (generateTemplate example_generator example_cwd ''claude'' ''frontend'' ''react''
           (install [] [(''.cursorrules'', File ''legacy rules''), (''project_knowledge.md'', File ''react notes'')] []))))
        (example_cwd @ [''.claude'', ''.cursorrules'']) = Some (File ''legacy rules'')
   \<and> stat (files (snd (generateTemplate example_generator example_cwd ''claude'' ''frontend'' ''react''
           (install [] [(''.cursorrules'', File ''legacy rules''), (''project_knowledge.md'', File ''react notes'')] []))))
        (example_cwd @ [''.claude'', ''rules'', ''rules.mdc'']) = None
   \<and> pathExists (files (install [] [(''docs'', File ''notes'')]
                           [(''.claude'', Dir [(''.cursorrules'', File ''old rules''), (''docs'', Dir [])])]))
        (templatePath example_generator ''claude'' ''frontend'' ''react'')
   \<and> fst (copy (snd (ensureDir (files (install [] [(''docs'', File ''notes'')]
                           [(''.claude'', Dir [(''.cursorrules'', File ''old rules''), (''docs'', Dir [])])]))
                        (outputDir example_cwd ''claude'')))
            (templatePath example_generator ''claude'' ''frontend'' ''react'')
            (outputDir example_cwd ''claude'')) \<noteq> None
   \<and> fst (generateTemplate example_generator example_cwd ''claude'' ''frontend'' ''react''
           (install [] [(''docs'', File ''notes'')]
              [(''.claude'', Dir [(''.cursorrules'', File ''old rules''), (''docs'', Dir [])])])) = Returned ()
   \<and> lookup (files (snd (generateTemplate example_generator example_cwd ''claude'' ''frontend'' ''react''
           (install [] [(''docs'', File ''notes'')]
              [(''.claude'', Dir [(''.cursorrules'', File ''old rules''), (''docs'', Dir [])])]))))
        (example_cwd @ [''.claude'', ''.cursorrules'']) = Some (File ''old rules'')
   \<and> stat (files (snd (generateTemplate example_generator example_cwd ''claude'' ''frontend'' ''react''
           (install [] [(''docs'', File ''notes'')]
              [(''.claude'', Dir [(''.cursorrules'', File ''old rules''), (''docs'', Dir [])])]))))
        (example_cwd @ [''.claude'', ''rules'', ''rules.mdc'']) = None"
proof -
  let ?w = "install [] [(''.cursorrules'', File ''legacy rules''), (''project_knowledge.md'', File ''react notes'')] []"
  let ?w' = "snd (generateTemplate example_generator example_cwd ''claude'' ''frontend'' ''react'' ?w)"
  let ?v = "install [] [(''docs'', File ''notes'')]
              [(''.claude'', Dir [(''.cursorrules'', File ''old rules''), (''docs'', Dir [])])]"
  let ?v' = "snd (generateTemplate example_generator example_cwd ''claude'' ''frontend'' ''react'' ?v)"
  let ?tp = "templatePath example_generator ''claude'' ''frontend'' ''react''"
  let ?od = "outputDir example_cwd ''claude''"
  let ?gs1 = "snd (ensureDir (files ?v) ?od)"
  let ?gs2 = "snd (copy ?gs1 ?tp ?od)"
  have h1: "''claude'' \<noteq> ''cursor''" by simp
  have h2: "succeeds example_generator example_cwd ''claude'' ''frontend'' ''react'' ?w ?w'"
    by (simp add: run_defs)
  have h3: "wf_node (files ?w)" by (simp add: install_def)
  have t: "?tp = [''pkg'', ''templates'', ''claude'', ''frontend'', ''react'']"
    and o: "?od = example_cwd @ [''.claude'']"
    by (simp_all add: run_defs)
  have a: "lookup (files ?w) ([''pkg'', ''templates'', ''claude'', ''frontend'', ''react''] @ [''.cursorrules''])
            = Some (File ''legacy rules'')"
    and b: "lookup (files ?w) ([''pkg'', ''templates'', ''claude'', ''frontend'', ''react''] @ [''rules'', ''rules.mdc'']) = None"
    and c: "stat (files ?w) ((example_cwd @ [''.claude'']) @ [''rules'', ''rules.mdc'']) = None"
    by (simp_all add: install_def example_cwd_def stat_def)
  note th1 = generateTemplate_other_tool_no_migration
      [OF h1, of ?w example_generator "''frontend''" "''react''" example_cwd]
  from th1 h2 h3 a
  have r1: "lookup (files ?w') ((example_cwd @ [''.claude'']) @ [''.cursorrules'']) = Some (File ''legacy rules'')"
    unfolding t o by blast
  from th1 h3 b c
  have r2: "stat (files ?w') ((example_cwd @ [''.claude'']) @ [''rules'', ''rules.mdc'']) = None"
    unfolding t o by metis
  have k1: "pathExists (files ?v) ?tp" by (simp add: run_defs)
  have k2: "ensureDir (files ?v) ?od = (None, ?gs1)" by (simp add: run_defs)
  have k3: "copy ?gs1 ?tp ?od = (fst (copy ?gs1 ?tp ?od), ?gs2)" by simp
  have k4: "fst (copy ?gs1 ?tp ?od) \<noteq> None" by (simp add: run_defs)
  have k5: "lookup ?gs2 (?od @ [''.cursorrules'']) = Some (File ''old rules'')"
    by (simp add: run_defs)
  have k6: "stat ?gs2 (?od @ [''rules'', ''rules.mdc'']) = None"
    by (simp add: run_defs stat_def)
  note th2 = generateTemplate_other_tool_no_migration
      [OF h1, of ?v example_generator "''frontend''" "''react''" example_cwd]
  from th2 k1 k2 k3
  have q0: "fst (generateTemplate example_generator example_cwd ''claude'' ''frontend'' ''react'' ?v) = Returned ()"
    and q1: "files ?v' = ?gs2"
    by blast+
  from q1 k5 have q2: "lookup (files ?v') (?od @ [''.cursorrules'']) = Some (File ''old rules'')"
    by simp
  from q1 k6 have q3: "stat (files ?v') (?od @ [''rules'', ''rules.mdc'']) = None"
    by simp
  from q2 q3 have q2': "lookup (files ?v') (example_cwd @ [''.claude'', ''.cursorrules'']) = Some (File ''old rules'')"
    and q3': "stat (files ?v') (example_cwd @ [''.claude'', ''rules'', ''rules.mdc'']) = None"
    unfolding o by simp_all
  from r1 r2 have r1': "lookup (files ?w') (example_cwd @ [''.claude'', ''.cursorrules'']) = Some (File ''legacy rules'')"
    and r2': "stat (files ?w') (example_cwd @ [''.claude'', ''rules'', ''rules.mdc'']) = None"
    by simp_all
  from h1 h3 h2 r1' r2' k1 k4 q0 q2' q3' show ?thesis by blast
qed


subsection \<open>C8: the option tables\<close>

text \<open>
  C8.  Every category of \<open>CATEGORY_OPTIONS\<close> is a key of \<open>FRAMEWORK_OPTIONS\<close>; every key of
  \<open>FRAMEWORK_OPTIONS\<close> has a non-empty list; the keys are pairwise different, no framework
  identifier occurs twice in the table, and each one is listed under exactly one category.
\<close>

theorem option_tables_consistent:
  "list_all (\<lambda>c. map_of FRAMEWORK_OPTIONS (choice_value c) \<noteq> None) CATEGORY_OPTIONS
   \<and> list_all (\<lambda>e. snd e \<noteq> []) FRAMEWORK_OPTIONS
   \<and> distinct (map fst FRAMEWORK_OPTIONS)
   \<and> distinct all_frameworks
   \<and> list_all (\<lambda>f. length (categories_of f) = 1) all_frameworks"
  by (simp add: FRAMEWORK_OPTIONS_def CATEGORY_OPTIONS_def categories_of_def all_frameworks_def)


subsection \<open>C9: the scenario cursor, backend, fastify\<close>

text \<open>
  C9.  The run of the scenario in the example installation, started in \<open>/home/project\<close>
  with a template directory that holds the one file \<open>rules.mdc\<close>.  The run returns and
  \<open>.cursor/rules.mdc\<close> has the bytes of the source, as the claim says.  The second
  success line, however, shows the destination as \<open>path.join(process.cwd(), '.cursor')\<close>
  gives it, the absolute path \<open>/home/project/.cursor\<close>: no printed line contains the
  literal \<open>./.cursor\<close> that the claim and the examples of README.md show.
\<close>

theorem generateTemplate_cursor_fastify_output:
  "lookup (files example_world) (templatePath example_generator ''cursor'' ''backend'' ''fastify'')
     = Some (Dir [(''rules.mdc'', File ''fastify rules'')])
   \<and> fst (generateTemplate example_generator example_cwd ''cursor'' ''backend'' ''fastify'' example_world)
     = Returned ()
   \<and> lookup (files (snd (generateTemplate example_generator example_cwd ''cursor'' ''backend'' ''fastify'' example_world)))
        (example_cwd @ [''.cursor'', ''rules.mdc'']) = Some (File ''fastify rules'')
   \<and> stdout (snd (generateTemplate example_generator example_cwd ''cursor'' ''backend'' ''fastify'' example_world)) =
       [(Green, check_mark @ '' Successfully generated cursor template for fastify!''),
        (Gray, folder @ '' Files created in: /home/project/.cursor'')]
   \<and> list_all (\<lambda>l. \<not> sublist ''./.cursor'' (snd l))
       (stdout (snd (generateTemplate example_generator example_cwd ''cursor'' ''backend'' ''fastify'' example_world)))"
  by (simp add: run_defs example_world_def example_disk_def path_string_def sublist_code
      check_mark_def folder_def)


subsection \<open>C10: a .cursorrules file that was already in the destination\<close>

text \<open>
  C10.  For \<open>cursor\<close>, when the destination \<open>.cursor\<close> holds a top-level file
  \<open>.cursorrules\<close> before the run and the template has no entry of that name, a successful
  run has moved that file: \<open>.cursor/rules/rules.mdc\<close> is a file with its bytes and
  \<open>.cursor/.cursorrules\<close> is gone.
\<close>

theorem generateTemplate_migrates_existing_cursorrules:
  assumes su: "succeeds this cwd ''cursor'' category framework w w'"
    and wf: "wf_node (files w)"
    and pre: "lookup (files w) (outputDir cwd ''cursor'' @ [''.cursorrules'']) = Some (File c)"
    and tpl: "lookup (files w) (templatePath this ''cursor'' category framework @ [''.cursorrules'']) = None"
  shows "lookup (files w') (outputDir cwd ''cursor'' @ [''rules'', ''rules.mdc'']) = Some (File c)
       \<and> lookup (files w') (outputDir cwd ''cursor'' @ [''.cursorrules'']) = None"
proof -
  let ?tp = "templatePath this ''cursor'' category framework" and ?od = "outputDir cwd ''cursor''"
  from succeeds_stat[OF su wf] obtain s fs2 where
    s: "lookup (files w) ?tp = Some s"
    and st: "\<And>r. stat fs2 (?od @ r) =
                 (case stat s r of Some e \<Rightarrow> Some e | None \<Rightarrow> stat (files w) (?od @ r))"
    and m: "migrate_cursorrules ?od fs2 = (None, files w')"
    by auto
  have "stat s [''.cursorrules''] = None"
    using tpl s by (simp add: stat_def lookup_append)
  then have "stat fs2 (?od @ [''.cursorrules'']) = Some (IsFile c)"
    using st[of "[''.cursorrules'']"] pre by (simp add: stat_eq_IsFile)
  then have x: "lookup fs2 (?od @ [''.cursorrules'']) = Some (File c)"
    by (simp add: stat_eq_IsFile)
  have a: "stat (files w') (?od @ [''rules'', ''rules.mdc'']) = Some (IsFile c)"
    using migrate_cursorrules_ok(1)[OF m x, of "[''rules'', ''rules.mdc'']"] by (simp add: stat_Nil)
  have b: "stat (files w') (?od @ [''.cursorrules'']) = None"
    using migrate_cursorrules_ok(1)[OF m x, of "[''.cursorrules'']"] by simp
  from a b show ?thesis by (simp add: stat_eq_IsFile stat_eq_None)
qed

text \<open>The run for (cursor, backend, fastify) into a project whose \<open>.cursor\<close> holds old rules.\<close>

theorem generateTemplate_migrates_existing_cursorrules_witness:
  "wf_node (files (install [(''rules.mdc'', File ''fastify rules'')] []
                     [(''.cursor'', Dir [(''.cursorrules'', File ''old rules'')])]))
   \<and> succeeds example_generator example_cwd ''cursor'' ''backend'' ''fastify''
        (install [(''rules.mdc'', File ''fastify rules'')] []
           [(''.cursor'', Dir [(''.cursorrules'', File ''old rules'')])])
        (snd (generateTemplate example_generator example_cwd ''cursor'' ''backend'' ''fastify''
           (install [(''rules.mdc'', File ''fastify rules'')] []
              [(''.cursor'', Dir [(''.cursorrules'', File ''old rules'')])])))
   \<and> lookup (files (snd (generateTemplate example_generator example_cwd ''cursor'' ''backend'' ''fastify''
           (install [(''rules.mdc'', File ''fastify rules'')] []
              [(''.cursor'', Dir [(''.cursorrules'', File ''old rules'')])]))))
        (example_cwd @ [''.cursor'', ''rules'', ''rules.mdc'']) = Some (File ''old rules'')
   \<and> lookup (files (snd (generateTemplate example_generator example_cwd ''cursor'' ''backend'' ''fastify''
           (install [(''rules.mdc'', File ''fastify rules'')] []
              [(''.cursor'', Dir [(''.cursorrules'', File ''old rules'')])]))))
        (example_cwd @ [''.cursor'', ''.cursorrules'']) = None"
proof -
  let ?w = "install [(''rules.mdc'', File ''fastify rules'')] []
              [(''.cursor'', Dir [(''.cursorrules'', File ''old rules'')])]"
  let ?w' = "snd (generateTemplate example_generator example_cwd ''cursor'' ''backend'' ''fastify'' ?w)"
  have h1: "succeeds example_generator example_cwd ''cursor'' ''backend'' ''fastify'' ?w ?w'"
    by (simp add: run_defs)
  have h2: "wf_node (files ?w)" by (simp add: install_def)
  have h3: "lookup (files ?w) (outputDir example_cwd ''cursor'' @ [''.cursorrules'']) = Some (File ''old rules'')"
    and h4: "lookup (files ?w) (templatePath example_generator ''cursor'' ''backend'' ''fastify'' @ [''.cursorrules'']) = None"
    by (simp_all add: run_defs)
  from generateTemplate_migrates_existing_cursorrules [OF h1 h2 h3 h4] h1 h2
  show ?thesis by (simp add: outputDir_cursor)
qed

end
